theory Spec2Isabelle
  imports Complex_Main "HOL-Library.AList"
begin

section \<open>The rendering wrapper \<open>ShaderProgram\<close> (src/using-default-vite/src/ShaderProgram.ts)\<close>

text \<open>
  The class wraps a WebGL context, a frame scheduler and a few DOM nodes. The model
  threads one record through every method: the fields of the instance, the part of the
  host's state the methods depend on (the array-buffer binding of the context, the
  pending animation-frame requests, the canvas's parent), and the list of host calls made
  so far, in order. A method that can throw returns the exception beside the state it
  leaves behind, since a JavaScript exception does not undo the calls made before it.
  A call that returns a value beside the new state returns a pair \<open>r\<close>, read with
  \<open>fst r\<close> and \<open>snd r\<close>.

  JavaScript numbers are modelled as \<^typ>\<open>real\<close>: the model computes with exact
  arithmetic where the engine rounds to IEEE-754 doubles. The projection matrix, the one
  place where a claim depends on the rounding, is modelled a second time with every
  operation rounded (\<open>setProjection_double\<close>).
\<close>

subsection \<open>Data (lines 2-47)\<close>

type_synonym handle = int

datatype utype = U_int | U_float | U_vec2 | U_vec3 | U_vec4 | U_mat2 | U_mat3 | U_mat4

text \<open>A uniform's value, \<^verbatim>\<open>number | number[]\<close>.\<close>

datatype jsval = Num real | Arr "real list"

text \<open>
  \<^verbatim>\<open>arr[i]\<close> for a value cast to \<^verbatim>\<open>number[]\<close>: an index past the end, or any
  index of a number, reads \<^verbatim>\<open>undefined\<close> (\<open>None\<close>).
\<close>

fun js_index :: "jsval \<Rightarrow> nat \<Rightarrow> real option" where
  "js_index (Arr xs) i = (if i < length xs then Some (xs ! i) else None)"
| "js_index (Num x) i = None"

record UniformConfig =
  u_type :: utype
  u_value :: jsval
  u_location :: "handle option"

record BufferConfig =
  b_size :: real
  b_data :: "real list"
  b_buffer :: "handle option"

record CameraConfig =
  cam_fov :: real
  cam_near :: real
  cam_far :: real
  cam_aspect :: real
  cam_z :: real
  cam_perspective :: bool

subsection \<open>Host calls\<close>

datatype shader_type = VERTEX_SHADER | FRAGMENT_SHADER

datatype capability = BLEND | CULL_FACE | DEPTH_TEST

text \<open>
  The calls on the WebGL context. A call that returns a handle records the handle it
  returned (\<open>None\<close> for \<^verbatim>\<open>null\<close>).
\<close>

datatype glcall =
    CreateShader shader_type "handle option"
  | ShaderSource handle string
  | CompileShader handle
  | GetShaderParameter handle
  | GetShaderInfoLog handle
  | DeleteShader handle
  | CreateProgram "handle option"
  | AttachShader handle handle
  | LinkProgram handle
  | GetProgramParameter handle
  | UseProgram handle
  | GetProgramInfoLog handle
  | DeleteProgram handle
  | GetUniformLocation "handle option" string
  | Uniform1i handle jsval
  | Uniform1f handle jsval
  | Uniform2f handle "real option" "real option"
  | Uniform3f handle "real option" "real option" "real option"
  | Uniform4f handle "real option" "real option" "real option" "real option"
  | UniformMatrix2fv handle jsval
  | UniformMatrix3fv handle jsval
  | UniformMatrix4fv handle jsval
  | GetAttribLocation "handle option" string
  | CreateBuffer "handle option"
  | BindBuffer "handle option"
  | EnableVertexAttribArray int
  | VertexAttribPointer int real
  | BufferData "real list"
  | DeleteBuffer handle
  | CreateTexture "handle option"
  | BindTexture handle
  | TexImage2D
  | DeleteTexture handle
  | Enable capability
  | Disable capability
  | BlendFunc
  | Viewport real real
  | ClearColor
  | Clear
  | DrawArrays real

text \<open>The calls on the document, the window and the frame scheduler.\<close>

datatype hostcall =
    AppendChild
  | RemoveChild
  | AddEventListener string
  | RemoveEventListener string
  | RequestAnimationFrame int
  | CancelAnimationFrame int
  | LoadImage string

datatype event = GL glcall | Host hostcall

datatype error = Error string | TypeError string

subsection \<open>The instance and the host state it acts on (lines 49-69)\<close>

text \<open>
  \<open>uniforms_accessors\<close> and \<open>buffers_accessors\<close> are the names for which
  \<^verbatim>\<open>Object.defineProperty\<close> installed a getter and a setter on \<^verbatim>\<open>this.uniforms\<close>
  and \<^verbatim>\<open>this.buffers\<close>; \<open>uniforms_props\<close> and \<open>buffers_props\<close> are the ordinary
  properties of these two objects (an assignment to a name without an accessor creates
  one). \<open>resizeHandler\<close> and \<open>mousemoveHandler\<close> say whether the field holds a
  handler, \<open>canvas_parentNode\<close> whether the canvas is attached.
\<close>

record ShaderProgram =
  count :: real
  camera :: CameraConfig
  data_uniforms :: "(string \<times> UniformConfig) list"
  data_buffers :: "(string \<times> BufferConfig) list"
  uniforms_accessors :: "string list"
  uniforms_props :: "string \<rightharpoonup> jsval"
  buffers_accessors :: "string list"
  buffers_props :: "string \<rightharpoonup> real list"
  width :: real
  height :: real
  aspect :: real
  program :: "handle option"
  texture :: "handle option"
  time_start :: real
  time_old :: real
  animationFrameId :: "int option"
  resizeHandler :: bool
  mousemoveHandler :: bool
  canvas_width :: real
  canvas_height :: real
  canvas_style_width :: real
  canvas_style_height :: real
  canvas_parentNode :: bool
  events :: "event list"
  ARRAY_BUFFER_BINDING :: "handle option"
  next_handle :: handle
  raf_pending :: "int list"
  raf_next :: int
  now_calls :: nat

text \<open>What the host answers: the driver, the layout of the holder and the clock.\<close>

record host_env =
  getContext_ok :: bool
  createShader_ok :: "shader_type \<Rightarrow> bool"
  COMPILE_STATUS :: "string \<Rightarrow> bool"
  getShaderInfoLog :: "string \<Rightarrow> string"
  createProgram_ok :: bool
  LINK_STATUS :: bool
  getProgramInfoLog :: string
  getUniformLocation_ok :: "string \<Rightarrow> bool"
  getAttribLocation :: "string \<Rightarrow> int"
  createBuffer_ok :: "string \<Rightarrow> bool"
  createTexture_ok :: bool
  offsetWidth :: real
  offsetHeight :: real
  devicePixelRatio :: real
  performance_now :: "nat \<Rightarrow> real"

subsection \<open>Primitives of the host\<close>

definition gl :: "glcall \<Rightarrow> ShaderProgram \<Rightarrow> ShaderProgram" where
  "gl c s = s\<lparr>events := events s @ [GL c]\<rparr>"

definition host :: "hostcall \<Rightarrow> ShaderProgram \<Rightarrow> ShaderProgram" where
  "host c s = s\<lparr>events := events s @ [Host c]\<rparr>"

text \<open>A fresh handle for an object the context creates.\<close>

definition fresh :: "ShaderProgram \<Rightarrow> handle \<times> ShaderProgram" where
  "fresh s = (next_handle s, s\<lparr>next_handle := next_handle s + 1\<rparr>)"

text \<open>\<^verbatim>\<open>gl.bindBuffer(gl.ARRAY_BUFFER, b)\<close> makes \<open>b\<close> the bound array buffer.\<close>

definition bindBuffer :: "handle option \<Rightarrow> ShaderProgram \<Rightarrow> ShaderProgram" where
  "bindBuffer b s = (gl (BindBuffer b) s)\<lparr>ARRAY_BUFFER_BINDING := b\<rparr>"

text \<open>\<^verbatim>\<open>gl.deleteBuffer(b)\<close>: a deleted buffer that was bound is unbound.\<close>

definition deleteBuffer :: "handle \<Rightarrow> ShaderProgram \<Rightarrow> ShaderProgram" where
  "deleteBuffer b s =
     (gl (DeleteBuffer b) s)
       \<lparr>ARRAY_BUFFER_BINDING :=
          (if ARRAY_BUFFER_BINDING s = Some b then None else ARRAY_BUFFER_BINDING s)\<rparr>"

text \<open>\<^verbatim>\<open>performance.now()\<close>: the next reading of the host's clock.\<close>

definition now :: "host_env \<Rightarrow> ShaderProgram \<Rightarrow> real \<times> ShaderProgram" where
  "now env s = (performance_now env (now_calls s), s\<lparr>now_calls := now_calls s + 1\<rparr>)"

text \<open>
  \<^verbatim>\<open>requestAnimationFrame\<close> registers the callback under a new handle;
  \<^verbatim>\<open>cancelAnimationFrame\<close> removes a registration, and does nothing for a handle that
  is not pending.
\<close>

definition requestAnimationFrame :: "ShaderProgram \<Rightarrow> int \<times> ShaderProgram" where
  "requestAnimationFrame s =
     (let h = raf_next s + 1;
          s1 = host (RequestAnimationFrame h) s
      in (h, s1\<lparr>raf_pending := raf_pending s1 @ [h], raf_next := h\<rparr>))"

definition cancelAnimationFrame :: "int \<Rightarrow> ShaderProgram \<Rightarrow> ShaderProgram" where
  "cancelAnimationFrame h s =
     (host (CancelAnimationFrame h) s)\<lparr>raf_pending := removeAll h (raf_pending s)\<rparr>"

subsection \<open>Uniforms (lines 324-400)\<close>

text \<open>\<^verbatim>\<open>setUniform\<close>, lines 346-391.\<close>

definition setUniform :: "string \<Rightarrow> jsval \<Rightarrow> ShaderProgram \<Rightarrow> ShaderProgram" where
  "setUniform name v s =
     (case map_of (data_uniforms s) name of
        None \<Rightarrow> s
      | Some uniform \<Rightarrow>
          (case u_location uniform of
             None \<Rightarrow> s
           | Some loc \<Rightarrow>
               (let s1 = s\<lparr>data_uniforms :=
                            AList.update name (uniform\<lparr>u_value := v\<rparr>) (data_uniforms s)\<rparr>
                in case u_type uniform of
                     U_int \<Rightarrow> gl (Uniform1i loc v) s1
                   | U_float \<Rightarrow> gl (Uniform1f loc v) s1
                   | U_vec2 \<Rightarrow> gl (Uniform2f loc (js_index v 0) (js_index v 1)) s1
                   | U_vec3 \<Rightarrow>
                       gl (Uniform3f loc (js_index v 0) (js_index v 1) (js_index v 2)) s1
                   | U_vec4 \<Rightarrow>
                       gl (Uniform4f loc (js_index v 0) (js_index v 1) (js_index v 2)
                             (js_index v 3)) s1
                   | U_mat2 \<Rightarrow> gl (UniformMatrix2fv loc v) s1
                   | U_mat3 \<Rightarrow> gl (UniformMatrix3fv loc v) s1
                   | U_mat4 \<Rightarrow> gl (UniformMatrix4fv loc v) s1)))"

text \<open>
  An assignment \<^verbatim>\<open>this.uniforms[name] = v\<close>: the setter of lines 335-340 when the name
  has an accessor, an ordinary property write otherwise.
\<close>

definition uniforms_set :: "string \<Rightarrow> jsval \<Rightarrow> ShaderProgram \<Rightarrow> ShaderProgram" where
  "uniforms_set name v s =
     (if name \<in> set (uniforms_accessors s) then
        (case map_of (data_uniforms s) name of
           None \<Rightarrow> s
         | Some uniform \<Rightarrow>
             (let s1 = s\<lparr>data_uniforms :=
                          AList.update name (uniform\<lparr>u_value := v\<rparr>) (data_uniforms s)\<rparr>
              in setUniform name v s1))
      else s\<lparr>uniforms_props := (uniforms_props s)(name \<mapsto> v)\<rparr>)"

text \<open>
  A read \<^verbatim>\<open>this.uniforms[name]\<close>: the getter of line 341, or the ordinary property;
  \<open>None\<close> is \<^verbatim>\<open>undefined\<close>.
\<close>

definition uniforms_get :: "string \<Rightarrow> ShaderProgram \<Rightarrow> jsval option" where
  "uniforms_get name s =
     (if name \<in> set (uniforms_accessors s)
      then map_option u_value (map_of (data_uniforms s) name)
      else uniforms_props s name)"

text \<open>\<^verbatim>\<open>gl.getUniformLocation(this.program, name)\<close>: a location, or \<^verbatim>\<open>null\<close>.\<close>

definition getUniformLocation ::
  "host_env \<Rightarrow> string \<Rightarrow> ShaderProgram \<Rightarrow> handle option \<times> ShaderProgram" where
  "getUniformLocation env name s =
     (let s1 = gl (GetUniformLocation (program s) name) s
      in if getUniformLocation_ok env name
         then (let r = fresh s1 in (Some (fst r), snd r))
         else (None, s1))"

text \<open>
  \<^verbatim>\<open>createUniforms\<close>, lines 324-344. The loop visits the entries of \<^verbatim>\<open>data\<close> in
  the order of \<^verbatim>\<open>Object.keys\<close>, stores each location in its entry and defines the
  accessor.
\<close>

fun createUniforms_each ::
  "host_env \<Rightarrow> (string \<times> UniformConfig) list \<Rightarrow> ShaderProgram \<Rightarrow> ShaderProgram" where
  "createUniforms_each env [] s = s"
| "createUniforms_each env (entry # rest) s =
     (let name = fst entry;
          uniform = snd entry;
          r = getUniformLocation env (''u_'' @ name) s;
          s1 = snd r;
          s2 = s1\<lparr>data_uniforms :=
                   AList.update name (uniform\<lparr>u_location := fst r\<rparr>) (data_uniforms s1),
                 uniforms_accessors := uniforms_accessors s1 @ [name]\<rparr>
      in createUniforms_each env rest s2)"

definition createUniforms ::
  "host_env \<Rightarrow> (string \<times> UniformConfig) list \<Rightarrow> ShaderProgram \<Rightarrow> ShaderProgram" where
  "createUniforms env data s =
     (let s1 = s\<lparr>data_uniforms := data, uniforms_accessors := [], uniforms_props := Map.empty\<rparr>
      in createUniforms_each env data s1)"

text \<open>\<^verbatim>\<open>updateUniforms\<close>, lines 393-400: every uniform is assigned its own value.\<close>

fun updateUniforms_each :: "(string \<times> UniformConfig) list \<Rightarrow> ShaderProgram \<Rightarrow> ShaderProgram" where
  "updateUniforms_each [] s = s"
| "updateUniforms_each (entry # rest) s =
     (let s1 = uniforms_set (fst entry) (u_value (snd entry)) s
      in updateUniforms_each rest s1)"

definition updateUniforms :: "ShaderProgram \<Rightarrow> ShaderProgram" where
  "updateUniforms s = updateUniforms_each (data_uniforms s) s"

subsection \<open>Buffers (lines 402-467)\<close>

text \<open>\<^verbatim>\<open>createBuffer\<close>, lines 426-442.\<close>

definition createBuffer ::
  "host_env \<Rightarrow> string \<Rightarrow> real \<Rightarrow> ShaderProgram \<Rightarrow> (error + handle) \<times> ShaderProgram" where
  "createBuffer env name sz s =
     (let index = getAttribLocation env name;
          s1 = gl (GetAttribLocation (program s) name) s
      in if createBuffer_ok env name then
           (let r = fresh s1;
                buffer = fst r;
                s2 = snd r;
                s3 = gl (CreateBuffer (Some buffer)) s2;
                s4 = bindBuffer (Some buffer) s3;
                s5 = gl (EnableVertexAttribArray index) s4;
                s6 = gl (VertexAttribPointer index sz) s5
            in (Inr buffer, s6))
         else (Inl (Error (''Failed to create buffer: '' @ name)), gl (CreateBuffer None) s1))"

text \<open>
  \<^verbatim>\<open>setBuffer\<close>, lines 444-457. The name \<^verbatim>\<open>null\<close> is \<open>None\<close>, an omitted
  \<^verbatim>\<open>data\<close> is \<open>None\<close>; an array, also an empty one, is truthy. Line 454 reads
  \<^verbatim>\<open>buffers[name].buffer\<close>: for a name that \<^verbatim>\<open>this.data.buffers\<close> does not have,
  this is a property read on \<^verbatim>\<open>undefined\<close>, which throws a \<^verbatim>\<open>TypeError\<close>.
  (The names every object inherits, such as \<^verbatim>\<open>constructor\<close>, are left out: the model
  treats them as any other name that was not registered.) The call \<open>BufferData d\<close>
  records the numbers handed to \<^verbatim>\<open>new Float32Array(data)\<close>, not their roundings to single
  precision.
\<close>

definition setBuffer ::
  "string option \<Rightarrow> real list option \<Rightarrow> ShaderProgram \<Rightarrow> error option \<times> ShaderProgram" where
  "setBuffer name data s =
     (case name of
        None \<Rightarrow> (None, bindBuffer None s)
      | Some n \<Rightarrow>
          (case data of
             None \<Rightarrow> (None, s)
           | Some d \<Rightarrow>
               (case map_of (data_buffers s) n of
                  None \<Rightarrow> (Some (TypeError ''Cannot read properties of undefined''), s)
                | Some b \<Rightarrow>
                    (let s1 = bindBuffer (b_buffer b) s
                     in (None, gl (BufferData d) s1)))))"

text \<open>
  An assignment \<^verbatim>\<open>this.buffers[name] = d\<close>: the setter of lines 411-420 when the name
  has an accessor, an ordinary property write otherwise.
\<close>

definition buffers_set ::
  "string \<Rightarrow> real list \<Rightarrow> ShaderProgram \<Rightarrow> error option \<times> ShaderProgram" where
  "buffers_set name d s =
     (if name \<in> set (buffers_accessors s) then
        (case map_of (data_buffers s) name of
           None \<Rightarrow> (None, s)
         | Some buffer \<Rightarrow>
             (let s1 = s\<lparr>data_buffers :=
                          AList.update name (buffer\<lparr>b_data := d\<rparr>) (data_buffers s)\<rparr>;
                  r = setBuffer (Some name) (Some d) s1;
                  s2 = snd r
              in case fst r of
                   Some e \<Rightarrow> (Some e, s2)
                 | None \<Rightarrow>
                     (if name = ''position'' then
                        (case map_of (data_buffers s2) ''position'' of
                           None \<Rightarrow> (Some (TypeError ''Cannot read properties of undefined''), s2)
                         | Some p \<Rightarrow> (None, s2\<lparr>count := real (length (b_data p)) / 3\<rparr>))
                      else (None, s2))))
      else (None, s\<lparr>buffers_props := (buffers_props s)(name \<mapsto> d)\<rparr>))"

text \<open>A read \<^verbatim>\<open>this.buffers[name]\<close>: the getter of line 421, or the ordinary property.\<close>

definition buffers_get :: "string \<Rightarrow> ShaderProgram \<Rightarrow> real list option" where
  "buffers_get name s =
     (if name \<in> set (buffers_accessors s)
      then map_option b_data (map_of (data_buffers s) name)
      else buffers_props s name)"

text \<open>\<^verbatim>\<open>createBuffers\<close>, lines 402-424; the loop stops at the first exception.\<close>

fun createBuffers_each ::
  "host_env \<Rightarrow> (string \<times> BufferConfig) list \<Rightarrow> ShaderProgram \<Rightarrow> error option \<times> ShaderProgram" where
  "createBuffers_each env [] s = (None, s)"
| "createBuffers_each env (entry # rest) s =
     (let name = fst entry;
          buffer = snd entry;
          r = createBuffer env (''a_'' @ name) (b_size buffer) s;
          s1 = snd r
      in case fst r of
           Inl e \<Rightarrow> (Some e, s1)
         | Inr h \<Rightarrow>
             (let s2 = s1\<lparr>data_buffers :=
                          AList.update name (buffer\<lparr>b_buffer := Some h\<rparr>) (data_buffers s1),
                        buffers_accessors := buffers_accessors s1 @ [name]\<rparr>
              in createBuffers_each env rest s2))"

definition createBuffers ::
  "host_env \<Rightarrow> (string \<times> BufferConfig) list \<Rightarrow> ShaderProgram \<Rightarrow> error option \<times> ShaderProgram" where
  "createBuffers env data s =
     (let s1 = s\<lparr>data_buffers := data, buffers_accessors := [], buffers_props := Map.empty\<rparr>
      in createBuffers_each env data s1)"

text \<open>
  \<^verbatim>\<open>updateBuffers\<close>, lines 459-467: every buffer is assigned its own data, then the
  array-buffer binding is reset with \<^verbatim>\<open>setBuffer(null)\<close>.
\<close>

fun updateBuffers_each ::
  "(string \<times> BufferConfig) list \<Rightarrow> ShaderProgram \<Rightarrow> error option \<times> ShaderProgram" where
  "updateBuffers_each [] s = (None, s)"
| "updateBuffers_each (entry # rest) s =
     (let r = buffers_set (fst entry) (b_data (snd entry)) s;
          s1 = snd r
      in case fst r of
           Some e \<Rightarrow> (Some e, s1)
         | None \<Rightarrow> updateBuffers_each rest s1)"

definition updateBuffers :: "ShaderProgram \<Rightarrow> error option \<times> ShaderProgram" where
  "updateBuffers s =
     (let r = updateBuffers_each (data_buffers s) s;
          s1 = snd r
      in case fst r of
           Some e \<Rightarrow> (Some e, s1)
         | None \<Rightarrow> setBuffer None None s1)"

subsection \<open>Shaders and the program (lines 278-322)\<close>

text \<open>\<^verbatim>\<open>createShader\<close>, lines 278-296.\<close>

definition createShader ::
  "host_env \<Rightarrow> shader_type \<Rightarrow> string \<Rightarrow> ShaderProgram \<Rightarrow> (error + handle) \<times> ShaderProgram" where
  "createShader env type source s =
     (if createShader_ok env type then
        (let r = fresh s;
             shader = fst r;
             s1 = snd r;
             s2 = gl (CreateShader type (Some shader)) s1;
             s3 = gl (ShaderSource shader source) s2;
             s4 = gl (CompileShader shader) s3;
             s5 = gl (GetShaderParameter shader) s4
         in if COMPILE_STATUS env source then (Inr shader, s5)
            else
              (let s6 = gl (GetShaderInfoLog shader) s5;
                   s7 = gl (DeleteShader shader) s6
               in (Inl (Error (''Shader compilation failed: '' @ getShaderInfoLog env source)),
                   s7)))
      else (Inl (Error ''Failed to create shader''), gl (CreateShader type None) s))"

text \<open>\<^verbatim>\<open>createProgram\<close>, lines 298-322.\<close>

definition createProgram ::
  "host_env \<Rightarrow> string \<Rightarrow> string \<Rightarrow> ShaderProgram \<Rightarrow> error option \<times> ShaderProgram" where
  "createProgram env vertex fragment s =
     (let rv = createShader env VERTEX_SHADER vertex s;
          s1 = snd rv
      in case fst rv of
           Inl e \<Rightarrow> (Some e, s1)
         | Inr vertexShader \<Rightarrow>
             (let rf = createShader env FRAGMENT_SHADER fragment s1;
                  s2 = snd rf
              in case fst rf of
                   Inl e \<Rightarrow> (Some e, s2)
                 | Inr fragmentShader \<Rightarrow>
                     (if createProgram_ok env then
                        (let r = fresh s2;
                             prog = fst r;
                             s3 = snd r;
                             s4 = gl (CreateProgram (Some prog)) s3;
                             s5 = gl (AttachShader prog vertexShader) s4;
                             s6 = gl (AttachShader prog fragmentShader) s5;
                             s7 = gl (LinkProgram prog) s6;
                             s8 = gl (GetProgramParameter prog) s7
                         in if LINK_STATUS env
                            then (let s9 = gl (UseProgram prog) s8
                                  in (None, s9\<lparr>program := Some prog\<rparr>))
                            else
                              (let s9 = gl (GetProgramInfoLog prog) s8;
                                   s10 = gl (DeleteProgram prog) s9
                               in (Some (Error (''Program linking failed: '' @
                                                 getProgramInfoLog env)),
                                   s10)))
                      else (Some (Error ''Failed to create program''),
                            gl (CreateProgram None) s2))))"

subsection \<open>The texture (lines 469-517)\<close>

text \<open>
  \<^verbatim>\<open>loadTexture\<close>, lines 498-517, starts loading the image. The \<^verbatim>\<open>onload\<close> handler
  runs later, if the image loads; the model records the request only.
\<close>

definition loadTexture :: "string \<Rightarrow> ShaderProgram \<Rightarrow> ShaderProgram" where
  "loadTexture src s = host (LoadImage src) s"

text \<open>\<^verbatim>\<open>createTexture\<close>, lines 469-496; \<^verbatim>\<open>null\<close> and the empty string are falsy.\<close>

definition createTexture ::
  "host_env \<Rightarrow> string option \<Rightarrow> ShaderProgram \<Rightarrow> error option \<times> ShaderProgram" where
  "createTexture env src s =
     (if createTexture_ok env then
        (let r = fresh s;
             tex = fst r;
             s1 = snd r;
             s2 = gl (CreateTexture (Some tex)) s1;
             s3 = gl (BindTexture tex) s2;
             s4 = gl TexImage2D s3;
             s5 = s4\<lparr>texture := Some tex\<rparr>
         in case src of
              None \<Rightarrow> (None, s5)
            | Some url \<Rightarrow>
                (if url = [] then (None, s5)
                 else
                   (let s6 = uniforms_set ''hasTexture'' (Num 1) s5
                    in (None, loadTexture url s6))))
      else (Some (Error ''Failed to create texture''), gl (CreateTexture None) s))"

subsection \<open>The projection, resizing and the pointer (lines 209-276)\<close>

text \<open>
  The array literal of lines 246-267, from the camera as it is when the literal is
  evaluated. Where a divisor is zero the engine computes an infinity or a NaN, which
  \<^typ>\<open>real\<close> does not have (\<open>x / 0 = 0\<close> in HOL).
\<close>

definition perspective_matrix :: "CameraConfig \<Rightarrow> real list" where
  "perspective_matrix cam =
     (let fovRad = cam_fov cam * (pi / 180);
          f = tan (pi * 0.5 - 0.5 * fovRad);
          rangeInv = 1.0 / (cam_near cam - cam_far cam)
      in [f / cam_aspect cam, 0, 0, 0,
          0, f, 0, 0,
          0, 0, (cam_near cam + cam_far cam) * rangeInv, - 1,
          0, 0, cam_near cam * cam_far cam * rangeInv * 2, 0])"

text \<open>\<^verbatim>\<open>setProjection\<close>, lines 240-276: the matrix it returns and the state it leaves.\<close>

definition setProjection :: "real \<Rightarrow> ShaderProgram \<Rightarrow> real list \<times> ShaderProgram" where
  "setProjection a s =
     (if cam_perspective (camera s) then
        (let s1 = s\<lparr>camera := (camera s)\<lparr>cam_aspect := a\<rparr>\<rparr>;
             matrix = perspective_matrix (camera s1);
             matrix14 = matrix[14 := matrix ! 14 + cam_z (camera s1)];
             matrix15 = matrix14[15 := matrix14 ! 15 + cam_z (camera s1)]
         in (matrix15, s1))
      else ([2 / width s, 0, 0, 0, 0, - 2 / height s, 0, 0, 0, 0, 1, 0, - 1, 1, 0, 1], s))"

text \<open>
  \<^verbatim>\<open>resize\<close>, lines 216-238. \<open>onResize\<close> is the user's callback. The canvas fields hold
  the numbers assigned to them.
\<close>

definition resize ::
  "host_env \<Rightarrow> (real \<Rightarrow> real \<Rightarrow> real \<Rightarrow> ShaderProgram \<Rightarrow> ShaderProgram) \<Rightarrow>
     ShaderProgram \<Rightarrow> ShaderProgram" where
  "resize env onResize s =
     (let w = offsetWidth env;
          h = offsetHeight env;
          a = w / h;
          dpi = devicePixelRatio env;
          s1 = s\<lparr>width := w, height := h, aspect := a\<rparr>;
          s2 = s1\<lparr>canvas_width := w * dpi, canvas_height := h * dpi,
                 canvas_style_width := w, canvas_style_height := h\<rparr>;
          s3 = gl (Viewport (w * dpi) (h * dpi)) s2;
          s4 = gl ClearColor s3;
          s5 = uniforms_set ''resolution'' (Arr [w, h]) s4;
          r = setProjection a s5;
          s6 = snd r;
          s7 = uniforms_set ''projection'' (Arr (fst r)) s6
      in onResize w h dpi s7)"

text \<open>\<^verbatim>\<open>mousemove\<close>, lines 209-214, for a pointer event at \<open>(pageX, pageY)\<close>.\<close>

definition mousemove :: "real \<Rightarrow> real \<Rightarrow> ShaderProgram \<Rightarrow> ShaderProgram" where
  "mousemove pageX pageY s =
     (let x = (pageX / width s) * 2 - 1;
          y = (pageY / height s) * 2 - 1
      in uniforms_set ''mousemove'' (Arr [x, y]) s)"

subsection \<open>The frame loop (lines 519-537)\<close>

text \<open>
  The calls of lines 529-532: the buffer is cleared and the points are drawn when
  \<^verbatim>\<open>this.count > 0\<close>.
\<close>

definition draw :: "ShaderProgram \<Rightarrow> ShaderProgram" where
  "draw s =
     (if count s > 0
      then (let s1 = gl Clear s in gl (DrawArrays (count s1)) s1)
      else s)"

text \<open>
  \<^verbatim>\<open>_update\<close> (bound as \<^verbatim>\<open>this.update\<close>), lines 519-537. \<open>onUpdate\<close> is the user's
  callback, called with the instance as \<^verbatim>\<open>this\<close>: it may call any public method.
\<close>

definition update_frame ::
  "host_env \<Rightarrow> (real \<Rightarrow> ShaderProgram \<Rightarrow> ShaderProgram) \<Rightarrow> ShaderProgram \<Rightarrow> ShaderProgram" where
  "update_frame env onUpdate s =
     (let r = now env s;
          t = fst r;
          s1 = snd r;
          elapsed = (t - time_start s1) / 5000;
          delta = t - time_old s1;
          s2 = s1\<lparr>time_old := t\<rparr>;
          s3 = uniforms_set ''time'' (Num elapsed) s2;
          s4 = draw s3;
          s5 = onUpdate delta s4;
          q = requestAnimationFrame s5;
          s6 = snd q
      in s6\<lparr>animationFrameId := Some (fst q)\<rparr>)"

subsection \<open>Teardown (lines 543-585)\<close>

text \<open>Lines 563-569: \<^verbatim>\<open>gl.deleteBuffer\<close> for every entry that holds a buffer.\<close>

fun delete_buffers :: "BufferConfig list \<Rightarrow> ShaderProgram \<Rightarrow> ShaderProgram" where
  "delete_buffers [] s = s"
| "delete_buffers (b # bs) s =
     (let s1 = (case b_buffer b of None \<Rightarrow> s | Some h \<Rightarrow> deleteBuffer h s)
      in delete_buffers bs s1)"

text \<open>\<^verbatim>\<open>destroy\<close>, lines 543-585.\<close>

definition destroy :: "ShaderProgram \<Rightarrow> ShaderProgram" where
  "destroy s =
     (let s1 = (case animationFrameId s of
                  None \<Rightarrow> s
                | Some h \<Rightarrow> (cancelAnimationFrame h s)\<lparr>animationFrameId := None\<rparr>);
          s2 = (if resizeHandler s1
                then (host (RemoveEventListener ''resize'') s1)\<lparr>resizeHandler := False\<rparr>
                else s1);
          s3 = (if mousemoveHandler s2
                then (host (RemoveEventListener ''mousemove'') s2)\<lparr>mousemoveHandler := False\<rparr>
                else s2);
          s4 = delete_buffers (map snd (data_buffers s3)) s3;
          s5 = (case texture s4 of None \<Rightarrow> s4 | Some tex \<Rightarrow> gl (DeleteTexture tex) s4);
          s6 = (case program s5 of None \<Rightarrow> s5 | Some prog \<Rightarrow> gl (DeleteProgram prog) s5)
      in if canvas_parentNode s6
         then (host RemoveChild s6)\<lparr>canvas_parentNode := False\<rparr>
         else s6)"

subsection \<open>Construction (lines 71-207)\<close>

text \<open>
  The options after the defaults of lines 72-127 are filled in: a caller's options are
  \<open>default_options\<close> updated at the fields the caller gives, as the object spread of
  line 126 does; likewise the camera is \<open>default_camera\<close> (lines 147-155) updated at
  the fields of \<^verbatim>\<open>options.camera\<close>. The shader sources are the texts of lines 78-119
  with the line breaks left out.
\<close>

record Options =
  opt_antialias :: bool
  opt_depthTest :: bool
  opt_mousemove :: bool
  opt_autosize :: bool
  opt_side :: string
  opt_vertex :: string
  opt_fragment :: string
  opt_uniforms :: "(string \<times> UniformConfig) list"
  opt_buffers :: "(string \<times> BufferConfig) list"
  opt_camera :: CameraConfig
  opt_texture :: "string option"
  opt_onUpdate :: "real \<Rightarrow> ShaderProgram \<Rightarrow> ShaderProgram"
  opt_onResize :: "real \<Rightarrow> real \<Rightarrow> real \<Rightarrow> ShaderProgram \<Rightarrow> ShaderProgram"

definition default_camera :: CameraConfig where
  "default_camera =
     \<lparr>cam_fov = 60, cam_near = 1, cam_far = 10000, cam_aspect = 1, cam_z = 100,
      cam_perspective = True\<rparr>"

definition default_vertex :: string where
  "default_vertex =
     ''precision highp float; attribute vec4 a_position; attribute vec4 a_color; '' @
     ''uniform float u_time; uniform vec2 u_resolution; uniform vec2 u_mousemove; '' @
     ''uniform mat4 u_projection; varying vec4 v_color; '' @
     ''void main() { gl_Position = u_projection * a_position; '' @
     ''gl_PointSize = (10.0 / gl_Position.w) * 100.0; v_color = a_color; }''"

definition default_fragment :: string where
  "default_fragment =
     ''precision highp float; uniform sampler2D u_texture; uniform int u_hasTexture; '' @
     ''varying vec4 v_color; void main() { if ( u_hasTexture == 1 ) { '' @
     ''gl_FragColor = v_color * texture2D(u_texture, gl_PointCoord); } else { '' @
     ''gl_FragColor = v_color; } }''"

definition default_options :: Options where
  "default_options =
     \<lparr>opt_antialias = False, opt_depthTest = False, opt_mousemove = False,
      opt_autosize = True, opt_side = ''front'', opt_vertex = default_vertex,
      opt_fragment = default_fragment, opt_uniforms = [], opt_buffers = [],
      opt_camera = default_camera, opt_texture = None,
      opt_onUpdate = (\<lambda>delta s. s), opt_onResize = (\<lambda>w h dpi s. s)\<rparr>"

text \<open>
  An object spread \<^verbatim>\<open>{...base, ...over}\<close>: a key of \<open>over\<close> that \<open>base\<close> has
  replaces the value in place, a new key is added at the end. (JavaScript lists the
  keys that are array indices, such as \<^verbatim>\<open>"0"\<close>, before all others; the model keeps
  them in the order of insertion. The names the class itself uses are identifiers.)
\<close>

definition spread :: "(string \<times> 'v) list \<Rightarrow> (string \<times> 'v) list \<Rightarrow> (string \<times> 'v) list" where
  "spread base over = fold (\<lambda>entry. AList.update (fst entry) (snd entry)) over base"

text \<open>Lines 129-145.\<close>

definition default_uniforms :: "(string \<times> UniformConfig) list" where
  "default_uniforms =
     [(''time'', \<lparr>u_type = U_float, u_value = Num 0, u_location = None\<rparr>),
      (''hasTexture'', \<lparr>u_type = U_int, u_value = Num 0, u_location = None\<rparr>),
      (''resolution'', \<lparr>u_type = U_vec2, u_value = Arr [0, 0], u_location = None\<rparr>),
      (''mousemove'', \<lparr>u_type = U_vec2, u_value = Arr [0, 0], u_location = None\<rparr>),
      (''projection'',
         \<lparr>u_type = U_mat4, u_value = Arr [1, 0, 0, 0, 0, 1, 0, 0, 0, 0, 1, 0, 0, 0, 0, 1],
          u_location = None\<rparr>)]"

definition default_buffers :: "(string \<times> BufferConfig) list" where
  "default_buffers =
     [(''position'', \<lparr>b_size = 3, b_data = [], b_buffer = None\<rparr>),
      (''color'', \<lparr>b_size = 4, b_data = [], b_buffer = None\<rparr>)]"

text \<open>The fields as the class initialises them, before a host call is made.\<close>

definition initial :: ShaderProgram where
  "initial =
     \<lparr>count = 0, camera = default_camera, data_uniforms = [], data_buffers = [],
      uniforms_accessors = [], uniforms_props = Map.empty,
      buffers_accessors = [], buffers_props = Map.empty,
      width = 0, height = 0, aspect = 1, program = None, texture = None,
      time_start = 0, time_old = 0, animationFrameId = None,
      resizeHandler = False, mousemoveHandler = False,
      canvas_width = 300, canvas_height = 150,
      canvas_style_width = 0, canvas_style_height = 0, canvas_parentNode = False,
      events = [], ARRAY_BUFFER_BINDING = None, next_handle = 0,
      raf_pending = [], raf_next = 0, now_calls = 0\<rparr>"

text \<open>
  The constructor, lines 71-207. An exception leaves the constructor at once; the state
  beside it holds the host calls made until then. The last statement, line 206, runs the
  first frame.
\<close>

definition constructor :: "host_env \<Rightarrow> Options \<Rightarrow> error option \<times> ShaderProgram" where
  "constructor env options =
     (let uniforms = spread default_uniforms (opt_uniforms options);
          buffers = spread default_buffers (opt_buffers options)
      in if \<not> getContext_ok env then (Some (Error ''WebGL not supported''), initial)
         else
           (let s0 = initial\<lparr>camera := opt_camera options\<rparr>;
                s1 = (host AppendChild s0)\<lparr>canvas_parentNode := True\<rparr>;
                r1 = createProgram env (opt_vertex options) (opt_fragment options) s1;
                s2 = snd r1
            in case fst r1 of Some e \<Rightarrow> (Some e, s2) | None \<Rightarrow>
           (let r2 = createBuffers env buffers s2;
                s3 = snd r2
            in case fst r2 of Some e \<Rightarrow> (Some e, s3) | None \<Rightarrow>
           (let s4 = createUniforms env uniforms s3;
                r3 = updateBuffers s4;
                s5 = snd r3
            in case fst r3 of Some e \<Rightarrow> (Some e, s5) | None \<Rightarrow>
           (let s6 = updateUniforms s5;
                r4 = createTexture env (opt_texture options) s6;
                s7 = snd r4
            in case fst r4 of Some e \<Rightarrow> (Some e, s7) | None \<Rightarrow>
           (let s8 = gl (Enable BLEND) s7;
                s9 = gl (Enable CULL_FACE) s8;
                s10 = gl BlendFunc s9;
                s11 = gl ((if opt_depthTest options then Enable else Disable) DEPTH_TEST) s10;
                s12 = (if opt_autosize options
                       then (host (AddEventListener ''resize'') s11)\<lparr>resizeHandler := True\<rparr>
                       else s11);
                s13 = (if opt_mousemove options
                       then (host (AddEventListener ''mousemove'') s12)
                              \<lparr>mousemoveHandler := True\<rparr>
                       else s12);
                s14 = resize env (opt_onResize options) s13;
                r5 = now env s14;
                r6 = now env (snd r5);
                s15 = (snd r6)\<lparr>time_start := fst r5, time_old := fst r6\<rparr>
            in (None, update_frame env (opt_onUpdate options) s15)))))))"

subsection \<open>The host's frame\<close>

text \<open>
  What the host does at a display refresh, as the HTML standard's "run the animation
  frame callbacks" has it: the handles pending when the frame starts are visited in
  order; a handle still pending is removed and its callback, here always
  \<^verbatim>\<open>this.update\<close>, is called. A request made by a callback waits for the next frame.
\<close>

fun run_callbacks ::
  "host_env \<Rightarrow> (real \<Rightarrow> ShaderProgram \<Rightarrow> ShaderProgram) \<Rightarrow> int list \<Rightarrow> ShaderProgram \<Rightarrow>
     ShaderProgram" where
  "run_callbacks env onUpdate [] s = s"
| "run_callbacks env onUpdate (h # hs) s =
     (if h \<in> set (raf_pending s)
      then (let s1 = s\<lparr>raf_pending := removeAll h (raf_pending s)\<rparr>;
                s2 = update_frame env onUpdate s1
            in run_callbacks env onUpdate hs s2)
      else run_callbacks env onUpdate hs s)"

definition animation_frame ::
  "host_env \<Rightarrow> (real \<Rightarrow> ShaderProgram \<Rightarrow> ShaderProgram) \<Rightarrow> ShaderProgram \<Rightarrow> ShaderProgram" where
  "animation_frame env onUpdate s = run_callbacks env onUpdate (raf_pending s) s"

subsection \<open>The projection in double arithmetic\<close>

text \<open>
  The matrix of \<^verbatim>\<open>setProjection\<close> once more, with every arithmetic operation rounded as
  the engine rounds it. \<open>round_double x\<close> is the IEEE-754 double nearest to \<open>x\<close>, a tie
  going to the even significand, for \<open>x\<close> in the range of the normal doubles (overflow
  and subnormal numbers are not modelled): the significand has 53 bits, so the doubles
  between \<open>2 powi e\<close> and \<open>2 powi (e + 1)\<close> are the multiples of \<open>2 powi (e - 52)\<close>.
\<close>

definition round_to_even :: "real \<Rightarrow> int" where
  "round_to_even y =
     (let n = \<lfloor>y\<rfloor>;
          r = y - of_int n
      in if r < 1 / 2 then n else if 1 / 2 < r then n + 1 else if even n then n else n + 1)"

definition round_double :: "real \<Rightarrow> real" where
  "round_double x =
     (if x = 0 then 0
      else (let ulp = 2 powi (\<lfloor>log 2 \<bar>x\<bar>\<rfloor> - 52)
            in of_int (round_to_even (x / ulp)) * ulp))"

text \<open>\<^verbatim>\<open>Math.PI\<close>, the double nearest to \<open>\<pi>\<close>.\<close>

definition Math_PI :: real where
  "Math_PI = 884279719003555 / 2 ^ 48"

text \<open>
  The array literal of lines 246-267 in double arithmetic. \<open>Math_tan\<close> is the host's
  \<^verbatim>\<open>Math.tan\<close>, whose accuracy the language leaves to the implementation. The fields
  of the camera are doubles.
\<close>

definition perspective_matrix_double :: "(real \<Rightarrow> real) \<Rightarrow> CameraConfig \<Rightarrow> real list" where
  "perspective_matrix_double Math_tan cam =
     (let fovRad = round_double (cam_fov cam * round_double (Math_PI / 180));
          f = Math_tan (round_double (round_double (Math_PI * 0.5) - round_double (0.5 * fovRad)));
          rangeInv = round_double (1.0 / round_double (cam_near cam - cam_far cam))
      in [round_double (f / cam_aspect cam), 0, 0, 0,
          0, f, 0, 0,
          0, 0, round_double (round_double (cam_near cam + cam_far cam) * rangeInv), - 1,
          0, 0,
          round_double (round_double (round_double (cam_near cam * cam_far cam) * rangeInv) * 2),
          0])"

text \<open>\<^verbatim>\<open>setProjection\<close>, lines 240-276, in double arithmetic.\<close>

definition setProjection_double ::
  "(real \<Rightarrow> real) \<Rightarrow> real \<Rightarrow> ShaderProgram \<Rightarrow> real list \<times> ShaderProgram" where
  "setProjection_double Math_tan a s =
     (if cam_perspective (camera s) then
        (let s1 = s\<lparr>camera := (camera s)\<lparr>cam_aspect := a\<rparr>\<rparr>;
             matrix = perspective_matrix_double Math_tan (camera s1);
             matrix14 = matrix[14 := round_double (matrix ! 14 + cam_z (camera s1))];
             matrix15 = matrix14[15 := round_double (matrix14 ! 15 + cam_z (camera s1))]
         in (matrix15, s1))
      else ([round_double (2 / width s), 0, 0, 0, 0, round_double (- 2 / height s), 0, 0,
             0, 0, 1, 0, - 1, 1, 0, 1], s))"

text \<open>A host whose \<^verbatim>\<open>Math.tan\<close> returns the double nearest to the tangent.\<close>

definition tan_rounded :: "real \<Rightarrow> real" where
  "tan_rounded x = round_double (tan x)"

section \<open>An example host and the surface it yields\<close>

text \<open>
  A host on which every call succeeds. The default shaders declare \<^verbatim>\<open>u_time\<close>,
  \<^verbatim>\<open>u_resolution\<close> and \<^verbatim>\<open>u_mousemove\<close> and never read them, so a driver reports no
  location for the three; \<^verbatim>\<open>u_hasTexture\<close> and \<^verbatim>\<open>u_projection\<close> have one. The holder
  measures 800 by 600 at a device pixel ratio of 2, and the clock advances 16 ms from one
  reading to the next.
\<close>

definition env0 :: host_env where
  "env0 =
     \<lparr>getContext_ok = True, createShader_ok = (\<lambda>ty. True), COMPILE_STATUS = (\<lambda>source. True),
      getShaderInfoLog = (\<lambda>source. ''''), createProgram_ok = True, LINK_STATUS = True,
      getProgramInfoLog = '''',
      getUniformLocation_ok = (\<lambda>name. name = ''u_projection'' \<or> name = ''u_hasTexture''),
      getAttribLocation =
        (\<lambda>name. if name = ''a_position'' then 0 else if name = ''a_color'' then 1 else - 1),
      createBuffer_ok = (\<lambda>name. True), createTexture_ok = True,
      offsetWidth = 800, offsetHeight = 600, devicePixelRatio = 2,
      performance_now = (\<lambda>n. 16 * real n)\<rparr>"

text \<open>
  The instance and the host state after \<^verbatim>\<open>new ShaderProgram(holder)\<close> on that host
  (\<open>constructor_default\<close> below): handles 0 and 1 are the shaders, 2 is the program, 3
  and 4 are the buffers, 5 and 6 the uniform locations, 7 the texture; the first frame has
  run and has requested frame 1.
\<close>

definition surface0 :: ShaderProgram where
  "surface0 =
     \<lparr>count = 0,
      camera =
        \<lparr>cam_fov = 60, cam_near = 1, cam_far = 10000, cam_aspect = 4 / 3, cam_z = 100,
         cam_perspective = True\<rparr>,
      data_uniforms =
        [(''time'', \<lparr>u_type = U_float, u_value = Num (4 / 625), u_location = None\<rparr>),
         (''hasTexture'', \<lparr>u_type = U_int, u_value = Num 0, u_location = Some 5\<rparr>),
         (''resolution'', \<lparr>u_type = U_vec2, u_value = Arr [800, 600], u_location = None\<rparr>),
         (''mousemove'', \<lparr>u_type = U_vec2, u_value = Arr [0, 0], u_location = None\<rparr>),
         (''projection'',
            \<lparr>u_type = U_mat4,
             u_value =
               Arr [tan (pi / 3) * 3 / 4, 0, 0, 0, 0, tan (pi / 3), 0, 0,
                    0, 0, - (10001 / 9999), - 1, 0, 0, 979900 / 9999, 100],
             u_location = Some 6\<rparr>)],
      data_buffers =
        [(''position'', \<lparr>b_size = 3, b_data = [], b_buffer = Some 3\<rparr>),
         (''color'', \<lparr>b_size = 4, b_data = [], b_buffer = Some 4\<rparr>)],
      uniforms_accessors = [''time'', ''hasTexture'', ''resolution'', ''mousemove'', ''projection''],
      uniforms_props = Map.empty,
      buffers_accessors = [''position'', ''color''],
      buffers_props = Map.empty,
      width = 800, height = 600, aspect = 4 / 3,
      program = Some 2, texture = Some 7,
      time_start = 0, time_old = 32, animationFrameId = Some 1,
      resizeHandler = True, mousemoveHandler = False,
      canvas_width = 1600, canvas_height = 1200,
      canvas_style_width = 800, canvas_style_height = 600, canvas_parentNode = True,
      events =
        [Host AppendChild,
         GL (CreateShader VERTEX_SHADER (Some 0)), GL (ShaderSource 0 default_vertex),
         GL (CompileShader 0), GL (GetShaderParameter 0),
         GL (CreateShader FRAGMENT_SHADER (Some 1)), GL (ShaderSource 1 default_fragment),
         GL (CompileShader 1), GL (GetShaderParameter 1),
         GL (CreateProgram (Some 2)), GL (AttachShader 2 0), GL (AttachShader 2 1),
         GL (LinkProgram 2), GL (GetProgramParameter 2), GL (UseProgram 2),
         GL (GetAttribLocation (Some 2) ''a_position''), GL (CreateBuffer (Some 3)),
         GL (BindBuffer (Some 3)), GL (EnableVertexAttribArray 0), GL (VertexAttribPointer 0 3),
         GL (GetAttribLocation (Some 2) ''a_color''), GL (CreateBuffer (Some 4)),
         GL (BindBuffer (Some 4)), GL (EnableVertexAttribArray 1), GL (VertexAttribPointer 1 4),
         GL (GetUniformLocation (Some 2) ''u_time''),
         GL (GetUniformLocation (Some 2) ''u_hasTexture''),
         GL (GetUniformLocation (Some 2) ''u_resolution''),
         GL (GetUniformLocation (Some 2) ''u_mousemove''),
         GL (GetUniformLocation (Some 2) ''u_projection''),
         GL (BindBuffer (Some 3)), GL (BufferData []),
         GL (BindBuffer (Some 4)), GL (BufferData []),
         GL (BindBuffer None),
         GL (Uniform1i 5 (Num 0)),
         GL (UniformMatrix4fv 6 (Arr [1, 0, 0, 0, 0, 1, 0, 0, 0, 0, 1, 0, 0, 0, 0, 1])),
         GL (CreateTexture (Some 7)), GL (BindTexture 7), GL TexImage2D,
         GL (Enable BLEND), GL (Enable CULL_FACE), GL BlendFunc, GL (Disable DEPTH_TEST),
         Host (AddEventListener ''resize''),
         GL (Viewport 1600 1200), GL ClearColor,
         GL (UniformMatrix4fv 6
               (Arr [tan (pi / 3) * 3 / 4, 0, 0, 0, 0, tan (pi / 3), 0, 0,
                     0, 0, - (10001 / 9999), - 1, 0, 0, 979900 / 9999, 100])),
         Host (RequestAnimationFrame 1)],
      ARRAY_BUFFER_BINDING = None, next_handle = 8,
      raf_pending = [1], raf_next = 1, now_calls = 3\<rparr>"

text \<open>The same host with a driver that rejects the fragment shader.\<close>

definition env_fragment_fails :: host_env where
  "env_fragment_fails =
     env0\<lparr>COMPILE_STATUS := (\<lambda>source. source \<noteq> default_fragment),
          getShaderInfoLog := (\<lambda>source. ''ERROR: 0:1'')\<rparr>"

text \<open>The same host with a driver that compiles both shaders and fails to link them.\<close>

definition env_link_fails :: host_env where
  "env_link_fails = env0\<lparr>LINK_STATUS := False, getProgramInfoLog := ''link error''\<rparr>"

text \<open>
  An \<^verbatim>\<open>onUpdate\<close> callback that tears the surface down from inside the frame, once 40 ms
  have passed: \<^verbatim>\<open>function () { if (this.time.old >= 40) this.destroy() }\<close>.
\<close>

definition destroy_when_late :: "real \<Rightarrow> ShaderProgram \<Rightarrow> ShaderProgram" where
  "destroy_when_late delta s = (if 40 \<le> time_old s then destroy s else s)"

text \<open>The calls \<^verbatim>\<open>gl.clear\<close> and \<^verbatim>\<open>gl.drawArrays\<close> among the host calls.\<close>

definition is_clear_or_draw :: "event \<Rightarrow> bool" where
  "is_clear_or_draw e =
     (case e of
        GL c \<Rightarrow> (case c of Clear \<Rightarrow> True | DrawArrays n \<Rightarrow> True | _ \<Rightarrow> False)
      | Host h \<Rightarrow> False)"

section \<open>Evaluation\<close>

text \<open>
  The equations that run the model on a concrete state, and the congruence rules that
  make the simplifier evaluate a \<open>let\<close>, an \<open>if\<close> or a \<open>case\<close> from its argument.
\<close>

lemmas model_defs =
  constructor_def default_options_def default_camera_def default_uniforms_def
  default_buffers_def spread_def initial_def createProgram_def createShader_def
  createBuffers_def createBuffer_def createUniforms_def getUniformLocation_def
  updateBuffers_def updateUniforms_def buffers_set_def buffers_get_def setBuffer_def
  uniforms_set_def uniforms_get_def setUniform_def createTexture_def loadTexture_def
  resize_def mousemove_def setProjection_def perspective_matrix_def update_frame_def draw_def
  requestAnimationFrame_def cancelAnimationFrame_def now_def gl_def host_def fresh_def
  bindBuffer_def deleteBuffer_def destroy_def animation_frame_def Let_def

lemmas weak_congs =
  let_weak_cong if_weak_cong option.case_cong_weak sum.case_cong_weak utype.case_cong_weak

lemma constructor_default: "constructor env0 default_options = (None, surface0)"
  by (simp add: env0_def surface0_def model_defs cong: weak_congs)

lemma map_of_update_same: "map_of (AList.update k v al) k = Some v"
  by (simp add: update_conv')

section \<open>Uniform writes\<close>

text \<open>
  C1, as amended. For a registered uniform of any of the eight kinds whose location lookup
  returned a handle, a write through the named accessor followed by a read returns the
  written value, and the write makes exactly one call on the context, the upload call of
  the uniform's kind at that location. (As stated, for every registered uniform, the claim
  fails: see \<open>uniform_write_no_location_counterexample\<close>.)
\<close>

theorem uniform_write_upload:
  assumes "name \<in> set (uniforms_accessors s)"
    and "map_of (data_uniforms s) name = Some u"
    and "u_location u = Some loc"
  shows "uniforms_get name (uniforms_set name v s) = Some v \<and>
         events (uniforms_set name v s) =
           events s @
           [GL (case u_type u of
                  U_int \<Rightarrow> Uniform1i loc v
                | U_float \<Rightarrow> Uniform1f loc v
                | U_vec2 \<Rightarrow> Uniform2f loc (js_index v 0) (js_index v 1)
                | U_vec3 \<Rightarrow> Uniform3f loc (js_index v 0) (js_index v 1) (js_index v 2)
                | U_vec4 \<Rightarrow>
                    Uniform4f loc (js_index v 0) (js_index v 1) (js_index v 2) (js_index v 3)
                | U_mat2 \<Rightarrow> UniformMatrix2fv loc v
                | U_mat3 \<Rightarrow> UniformMatrix3fv loc v
                | U_mat4 \<Rightarrow> UniformMatrix4fv loc v)]"
  using assms
  by (simp add: uniforms_set_def uniforms_get_def setUniform_def gl_def Let_def
        map_of_update_same split: utype.split)

text \<open>
  The theorem at the example surface: \<^verbatim>\<open>this.uniforms.hasTexture = 1\<close> is read back as
  1 and makes the one call \<^verbatim>\<open>gl.uniform1i\<close> at location 5.
\<close>

theorem uniform_write_upload_witness:
  "uniforms_get ''hasTexture'' (uniforms_set ''hasTexture'' (Num 1) surface0) = Some (Num 1) \<and>
   events (uniforms_set ''hasTexture'' (Num 1) surface0) =
     events surface0 @ [GL (Uniform1i 5 (Num 1))]"
  using uniform_write_upload
    [of "''hasTexture''" surface0
        "\<lparr>u_type = U_int, u_value = Num 0, u_location = Some 5\<rparr>" 5 "Num 1"]
  by (simp add: surface0_def)

text \<open>
  C1 as stated fails on the example surface: \<^verbatim>\<open>time\<close> is a registered uniform of
  kind float, the write \<^verbatim>\<open>this.uniforms.time = 5\<close> is read back as 5, and it makes no
  call at all, since \<^verbatim>\<open>setUniform\<close> returns at line 350 when the location is
  \<^verbatim>\<open>null\<close>.
\<close>

theorem uniform_write_no_location_counterexample:
  "''time'' \<in> set (uniforms_accessors surface0) \<and>
   map_option u_type (map_of (data_uniforms surface0) ''time'') = Some U_float \<and>
   uniforms_get ''time'' (uniforms_set ''time'' (Num 5) surface0) = Some (Num 5) \<and>
   events (uniforms_set ''time'' (Num 5) surface0) = events surface0"
  by (simp add: surface0_def model_defs cong: weak_congs)

text \<open>
  C10. For a registered uniform whose location lookup returned no handle, a write through
  the named accessor stores the value, so that a read returns exactly the written value,
  and makes no call on the context (or on any other part of the host).
\<close>

theorem uniform_write_without_location:
  assumes "name \<in> set (uniforms_accessors s)"
    and "map_of (data_uniforms s) name = Some u"
    and "u_location u = None"
  shows "uniforms_get name (uniforms_set name v s) = Some v \<and>
         events (uniforms_set name v s) = events s"
  using assms
  by (simp add: uniforms_set_def uniforms_get_def setUniform_def Let_def map_of_update_same)

text \<open>The theorem at the example surface, for \<^verbatim>\<open>resolution\<close>, which has no location.\<close>

theorem uniform_write_without_location_witness:
  "uniforms_get ''resolution'' (uniforms_set ''resolution'' (Arr [640, 480]) surface0) =
     Some (Arr [640, 480]) \<and>
   events (uniforms_set ''resolution'' (Arr [640, 480]) surface0) = events surface0"
  using uniform_write_without_location
    [of "''resolution''" surface0
        "\<lparr>u_type = U_vec2, u_value = Arr [800, 600], u_location = None\<rparr>" "Arr [640, 480]"]
  by (simp add: surface0_def)

section \<open>Buffer writes\<close>

lemma uniforms_set_count: "count (uniforms_set name v s) = count s"
  by (simp add: uniforms_set_def setUniform_def gl_def Let_def
        split: option.split utype.split)

lemma uniforms_set_clear_or_draw:
  "filter is_clear_or_draw (events (uniforms_set name v s)) = filter is_clear_or_draw (events s)"
  by (simp add: uniforms_set_def setUniform_def gl_def Let_def is_clear_or_draw_def
        split: option.split utype.split)

lemma draw_nothing: "count s = 0 \<Longrightarrow> draw s = s"
  by (simp add: draw_def)

text \<open>
  C2. On a surface where \<^verbatim>\<open>position\<close> is a registered buffer, a write of an array of
  \<open>3 * N\<close> numbers to \<^verbatim>\<open>this.buffers.position\<close> makes the vertex count exactly \<open>N\<close>,
  and a write of the empty array makes it 0. In a state \<open>s'\<close> whose count is 0, a frame
  of the loop adds no \<^verbatim>\<open>gl.clear\<close> and no \<^verbatim>\<open>gl.drawArrays\<close> to the calls made, for
  every user callback that makes neither call itself.
\<close>

theorem position_write_count:
  assumes "''position'' \<in> set (buffers_accessors s)"
    and "map_of (data_buffers s) ''position'' = Some b"
  shows "(length d = 3 * N \<longrightarrow> count (snd (buffers_set ''position'' d s)) = real N) \<and>
         count (snd (buffers_set ''position'' [] s)) = 0 \<and>
         (count s' = 0 \<longrightarrow>
            (\<forall>delta x. filter is_clear_or_draw (events (onUpdate delta x)) =
                       filter is_clear_or_draw (events x)) \<longrightarrow>
            filter is_clear_or_draw (events (update_frame env onUpdate s')) =
              filter is_clear_or_draw (events s'))"
proof (intro conjI impI)
  have w: "\<And>d. buffers_set ''position'' d s =
      (None, (gl (BufferData d)
                (bindBuffer (b_buffer b)
                   (s\<lparr>data_buffers :=
                        AList.update ''position'' (b\<lparr>b_data := d\<rparr>) (data_buffers s)\<rparr>)))
             \<lparr>count := real (length d) / 3\<rparr>)"
    using assms
    by (simp add: buffers_set_def setBuffer_def Let_def map_of_update_same gl_def bindBuffer_def)
  show "count (snd (buffers_set ''position'' d s)) = real N" if "length d = 3 * N"
    using that by (simp add: w)
  show "count (snd (buffers_set ''position'' [] s)) = 0"
    by (simp add: w)
next
  assume c: "count s' = 0"
    and cb: "\<forall>delta x. filter is_clear_or_draw (events (onUpdate delta x)) =
                       filter is_clear_or_draw (events x)"
  show "filter is_clear_or_draw (events (update_frame env onUpdate s')) =
          filter is_clear_or_draw (events s')"
    using c cb
    by (simp add: update_frame_def Let_def requestAnimationFrame_def host_def now_def
          uniforms_set_count uniforms_set_clear_or_draw draw_nothing is_clear_or_draw_def)
qed

text \<open>
  The theorem at the example surface: six numbers give the count 2, the empty array the
  count 0, and the frame that follows the empty write clears and draws nothing.
\<close>

theorem position_write_count_witness:
  "count (snd (buffers_set ''position'' [0, 0, 0, 1, 1, 1] surface0)) = 2 \<and>
   count (snd (buffers_set ''position'' [] surface0)) = 0 \<and>
   filter is_clear_or_draw
     (events (update_frame env0 (\<lambda>delta s. s) (snd (buffers_set ''position'' [] surface0)))) =
   filter is_clear_or_draw (events (snd (buffers_set ''position'' [] surface0)))"
proof -
  have h1: "''position'' \<in> set (buffers_accessors surface0)"
    by (simp add: surface0_def)
  have h2: "map_of (data_buffers surface0) ''position'' =
              Some \<lparr>b_size = 3, b_data = [], b_buffer = Some 3\<rparr>"
    by (simp add: surface0_def)
  note t = position_write_count [OF h1 h2]
  have c: "count (snd (buffers_set ''position'' [] surface0)) = 0"
    using t by blast
  have "count (snd (buffers_set ''position'' [0, 0, 0, 1, 1, 1] surface0)) = real 2"
    using t [of "[0, 0, 0, 1, 1, 1]" 2] by simp
  moreover have
    "filter is_clear_or_draw
       (events (update_frame env0 (\<lambda>delta s. s) (snd (buffers_set ''position'' [] surface0)))) =
     filter is_clear_or_draw (events (snd (buffers_set ''position'' [] surface0)))"
    using t [of "[]" 0 "snd (buffers_set ''position'' [] surface0)" "\<lambda>delta s. s" env0] c
    by simp
  ultimately show ?thesis using c by simp
qed

text \<open>
  What \<^verbatim>\<open>updateBuffers\<close> (lines 459-467) asks of the context. A write of a registered
  buffer's own data through its accessor binds the buffer and uploads the data, and
  leaves the registry as it was; so the loop of lines 462-464 makes these two calls for
  every entry, in order, and line 466 unbinds after the last.
\<close>

lemma buffers_set_own_data:
  assumes "name \<in> set (buffers_accessors s)"
    and "map_of (data_buffers s) name = Some b"
  shows "fst (buffers_set name (b_data b) s) = None \<and>
         events (snd (buffers_set name (b_data b) s)) =
           events s @ [GL (BindBuffer (b_buffer b)), GL (BufferData (b_data b))] \<and>
         data_buffers (snd (buffers_set name (b_data b) s)) = data_buffers s \<and>
         buffers_accessors (snd (buffers_set name (b_data b) s)) = buffers_accessors s"
proof (cases "name = ''position''")
  case True
  with assms show ?thesis
    by (simp add: buffers_set_def setBuffer_def Let_def update_triv gl_def bindBuffer_def)
next
  case False
  with assms show ?thesis
    by (simp add: buffers_set_def setBuffer_def Let_def update_triv gl_def bindBuffer_def)
qed

lemma updateBuffers_each_events:
  assumes "\<forall>entry \<in> set es.
             fst entry \<in> set (buffers_accessors s) \<and>
             map_of (data_buffers s) (fst entry) = Some (snd entry)"
  shows "fst (updateBuffers_each es s) = None \<and>
         events (snd (updateBuffers_each es s)) =
           events s @
           concat (map (\<lambda>entry. [GL (BindBuffer (b_buffer (snd entry))),
                                  GL (BufferData (b_data (snd entry)))]) es) \<and>
         data_buffers (snd (updateBuffers_each es s)) = data_buffers s \<and>
         buffers_accessors (snd (updateBuffers_each es s)) = buffers_accessors s"
  using assms
proof (induction es arbitrary: s)
  case Nil
  then show ?case by simp
next
  case (Cons entry es)
  have own: "fst entry \<in> set (buffers_accessors s)"
    "map_of (data_buffers s) (fst entry) = Some (snd entry)"
    using Cons.prems by simp_all
  note step = buffers_set_own_data [OF own]
  let ?s1 = "snd (buffers_set (fst entry) (b_data (snd entry)) s)"
  have "\<forall>e \<in> set es.
          fst e \<in> set (buffers_accessors ?s1) \<and> map_of (data_buffers ?s1) (fst e) = Some (snd e)"
    using Cons.prems step by simp
  from Cons.IH [OF this] step show ?case
    by (simp add: Let_def)
qed

lemma updateBuffers_events:
  assumes "distinct (map fst (data_buffers s))"
    and "set (map fst (data_buffers s)) \<subseteq> set (buffers_accessors s)"
  shows "fst (updateBuffers s) = None \<and>
         events (snd (updateBuffers s)) =
           events s @
           concat (map (\<lambda>entry. [GL (BindBuffer (b_buffer (snd entry))),
                                  GL (BufferData (b_data (snd entry)))]) (data_buffers s)) @
           [GL (BindBuffer None)]"
proof -
  have "\<forall>entry \<in> set (data_buffers s).
          fst entry \<in> set (buffers_accessors s) \<and>
          map_of (data_buffers s) (fst entry) = Some (snd entry)"
    using assms by (auto intro: map_of_is_SomeI)
  from updateBuffers_each_events [OF this] show ?thesis
    by (simp add: updateBuffers_def Let_def setBuffer_def bindBuffer_def gl_def)
qed

text \<open>
  The two hypotheses of \<open>updateBuffers_events\<close> hold after \<^verbatim>\<open>createBuffers\<close>
  (lines 402-424), which defines an accessor for every key of the object it is given:
  the registered names and the accessors are the keys of that object.
\<close>

lemma createBuffers_each_registers:
  assumes "createBuffers_each env es s = (None, s')"
    and "set (map fst es) \<subseteq> set (map fst (data_buffers s))"
  shows "map fst (data_buffers s') = map fst (data_buffers s) \<and>
         buffers_accessors s' = buffers_accessors s @ map fst es"
  using assms
proof (induction es arbitrary: s)
  case Nil
  then show ?case by simp
next
  case (Cons entry es)
  let ?r = "createBuffer env (''a_'' @ fst entry) (b_size (snd entry)) s"
  obtain h where h: "fst ?r = Inr h"
    using Cons.prems(1) by (cases "fst ?r") (simp_all add: Let_def)
  have keep: "data_buffers (snd ?r) = data_buffers s \<and> buffers_accessors (snd ?r) = buffers_accessors s"
    by (simp add: createBuffer_def Let_def gl_def bindBuffer_def fresh_def)
  let ?s2 = "(snd ?r)\<lparr>data_buffers :=
                 AList.update (fst entry) ((snd entry)\<lparr>b_buffer := Some h\<rparr>) (data_buffers (snd ?r)),
               buffers_accessors := buffers_accessors (snd ?r) @ [fst entry]\<rparr>"
  have rec: "createBuffers_each env es ?s2 = (None, s')"
    using Cons.prems(1) h by (simp add: Let_def)
  have keys: "map fst (data_buffers ?s2) = map fst (data_buffers s)"
    using Cons.prems(2) keep by (simp add: update_keys)
  have "set (map fst es) \<subseteq> set (map fst (data_buffers ?s2))"
    using Cons.prems(2) keys by simp
  from Cons.IH [OF rec this] keys keep show ?case
    by simp
qed

lemma createBuffers_registers:
  assumes "createBuffers env data s = (None, s')"
  shows "map fst (data_buffers s') = map fst data \<and> buffers_accessors s' = map fst data"
  using createBuffers_each_registers
    [of env data "s\<lparr>data_buffers := data, buffers_accessors := [], buffers_props := Map.empty\<rparr>" s']
    assms
  by (simp add: createBuffers_def Let_def)

text \<open>
  C5, as amended. A write through the named accessor of a registered buffer leaves that
  buffer's handle as the array-buffer binding of the context; the binding is cleared
  (bound to none) by \<^verbatim>\<open>setBuffer(null)\<close>, and so it is none after \<^verbatim>\<open>updateBuffers\<close>
  has returned normally. Where every registered name has its accessor (and the names are
  distinct, as the keys of an object are), \<^verbatim>\<open>updateBuffers\<close> returns normally and the
  calls it makes are, for each registered buffer in order, the binding of its handle and
  the upload of its data, and then once, after all of them, the binding of none. (As
  stated, after every accessor write, the claim fails: see
  \<open>buffer_write_binding_counterexample\<close>.)
\<close>

theorem buffer_write_binding:
  assumes "name \<in> set (buffers_accessors s)"
    and "map_of (data_buffers s) name = Some b"
  shows "ARRAY_BUFFER_BINDING (snd (buffers_set name d s)) = b_buffer b \<and>
         ARRAY_BUFFER_BINDING (snd (setBuffer None x s)) = None \<and>
         (fst (updateBuffers s) = None \<longrightarrow> ARRAY_BUFFER_BINDING (snd (updateBuffers s)) = None) \<and>
         (distinct (map fst (data_buffers s)) \<longrightarrow>
          set (map fst (data_buffers s)) \<subseteq> set (buffers_accessors s) \<longrightarrow>
            fst (updateBuffers s) = None \<and>
            events (snd (updateBuffers s)) =
              events s @
              concat (map (\<lambda>entry. [GL (BindBuffer (b_buffer (snd entry))),
                                     GL (BufferData (b_data (snd entry)))]) (data_buffers s)) @
              [GL (BindBuffer None)])"
proof -
  have "ARRAY_BUFFER_BINDING (snd (buffers_set name d s)) = b_buffer b \<and>
        ARRAY_BUFFER_BINDING (snd (setBuffer None x s)) = None \<and>
        (fst (updateBuffers s) = None \<longrightarrow> ARRAY_BUFFER_BINDING (snd (updateBuffers s)) = None)"
    using assms
    by (simp add: buffers_set_def setBuffer_def updateBuffers_def Let_def map_of_update_same
          gl_def bindBuffer_def split: option.split)
  then show ?thesis
    using updateBuffers_events [of s] by blast
qed

text \<open>
  The theorem at the example surface: after a write to \<^verbatim>\<open>position\<close> buffer 3 is bound;
  after \<^verbatim>\<open>setBuffer(null)\<close>, and after \<^verbatim>\<open>updateBuffers\<close>, which returns normally,
  nothing is; \<^verbatim>\<open>updateBuffers\<close> binds and writes buffer 3, then buffer 4, then unbinds.
\<close>

theorem buffer_write_binding_witness:
  "ARRAY_BUFFER_BINDING (snd (buffers_set ''position'' [0, 0, 0] surface0)) = Some 3 \<and>
   ARRAY_BUFFER_BINDING (snd (setBuffer None None surface0)) = None \<and>
   fst (updateBuffers surface0) = None \<and>
   ARRAY_BUFFER_BINDING (snd (updateBuffers surface0)) = None \<and>
   events (snd (updateBuffers surface0)) =
     events surface0 @
     [GL (BindBuffer (Some 3)), GL (BufferData []),
      GL (BindBuffer (Some 4)), GL (BufferData []),
      GL (BindBuffer None)]"
proof -
  have h1: "''position'' \<in> set (buffers_accessors surface0)"
    by (simp add: surface0_def)
  have h2: "map_of (data_buffers surface0) ''position'' =
              Some \<lparr>b_size = 3, b_data = [], b_buffer = Some 3\<rparr>"
    by (simp add: surface0_def)
  have h3: "distinct (map fst (data_buffers surface0))"
    by (simp add: surface0_def)
  have h4: "set (map fst (data_buffers surface0)) \<subseteq> set (buffers_accessors surface0)"
    by (simp add: surface0_def)
  have d: "data_buffers surface0 =
      [(''position'', \<lparr>b_size = 3, b_data = [], b_buffer = Some 3\<rparr>),
       (''color'', \<lparr>b_size = 4, b_data = [], b_buffer = Some 4\<rparr>)]"
    by (simp add: surface0_def)
  show ?thesis
    using buffer_write_binding [OF h1 h2, of "[0, 0, 0]" None] h3 h4
    by (simp add: d)
qed

text \<open>
  C5 as stated fails on the example surface: the write
  \<^verbatim>\<open>this.buffers.color = [1, 0, 0, 1]\<close> returns normally and leaves buffer 4 bound, since
  the setter of lines 411-420 calls \<^verbatim>\<open>setBuffer(name, data)\<close> and nothing after it.
\<close>

theorem buffer_write_binding_counterexample:
  "fst (buffers_set ''color'' [1, 0, 0, 1] surface0) = None \<and>
   ARRAY_BUFFER_BINDING (snd (buffers_set ''color'' [1, 0, 0, 1] surface0)) = Some 4"
  by (simp add: surface0_def model_defs cong: weak_congs)

section \<open>Writes to names that were never registered\<close>

text \<open>
  An assignment to a name without an accessor is an ordinary property write, and
  \<^verbatim>\<open>setUniform\<close> returns at once for a name that \<^verbatim>\<open>this.data.uniforms\<close> does not have
  (line 350): neither throws, and neither makes a host call.
\<close>

lemma unregistered_accessor_write:
  "name \<notin> set (uniforms_accessors s) \<Longrightarrow> events (uniforms_set name v s) = events s"
  "name \<notin> set (buffers_accessors s) \<Longrightarrow>
     fst (buffers_set name d s) = None \<and> events (snd (buffers_set name d s)) = events s"
  "map_of (data_uniforms s) name = None \<Longrightarrow> setUniform name v s = s"
  by (simp_all add: uniforms_set_def buffers_set_def setUniform_def)

text \<open>
  C9 fails for the public \<^verbatim>\<open>setBuffer\<close>: on the example surface, whose buffers are
  \<^verbatim>\<open>position\<close> and \<^verbatim>\<open>color\<close>, the call \<^verbatim>\<open>setBuffer("normal", [0, 0, 1])\<close> throws a
  \<^verbatim>\<open>TypeError\<close> at line 454, before any call on the context. \<^verbatim>\<open>setBuffer\<close> has no
  guard of the kind \<^verbatim>\<open>setUniform\<close> has at line 350.
\<close>

theorem setBuffer_unregistered_throws:
  "setBuffer (Some ''normal'') (Some [0, 0, 1]) surface0 =
     (Some (TypeError ''Cannot read properties of undefined''), surface0)"
  by (simp add: surface0_def setBuffer_def)

section \<open>The projection\<close>

text \<open>
  C6, as amended. \<^verbatim>\<open>setProjection\<close> leaves the surface as it is in orthographic mode;
  in perspective mode it stores its argument in the \<^verbatim>\<open>aspect\<close> field of the camera
  (line 244) and changes nothing else. The matrix it returns is a function of the camera,
  the width, the height and the argument: two states that agree on the three return the
  same matrix. (As stated, with every field of the camera unchanged, the claim fails: see
  \<open>setProjection_counterexample\<close>.)
\<close>

theorem setProjection_effect:
  "snd (setProjection a s) =
     (if cam_perspective (camera s) then s\<lparr>camera := (camera s)\<lparr>cam_aspect := a\<rparr>\<rparr> else s) \<and>
   (camera s' = camera s \<longrightarrow> width s' = width s \<longrightarrow> height s' = height s \<longrightarrow>
      fst (setProjection a s') = fst (setProjection a s))"
  by (simp add: setProjection_def Let_def)

text \<open>The theorem at the example surface, which is in perspective mode.\<close>

theorem setProjection_effect_witness:
  "snd (setProjection 2 surface0) = surface0\<lparr>camera := (camera surface0)\<lparr>cam_aspect := 2\<rparr>\<rparr> \<and>
   fst (setProjection 2 (surface0\<lparr>count := 7\<rparr>)) = fst (setProjection 2 surface0)"
  using setProjection_effect [of 2 surface0 "surface0\<lparr>count := 7\<rparr>"]
  by (simp add: surface0_def)

text \<open>
  C6 as stated fails on the example surface: the camera's aspect is 4/3 before
  \<^verbatim>\<open>setProjection(2)\<close> and 2 after it.
\<close>

theorem setProjection_counterexample:
  "cam_aspect (camera surface0) = 4 / 3 \<and>
   cam_aspect (camera (snd (setProjection 2 surface0))) = 2"
  by (simp add: surface0_def setProjection_def Let_def)

text \<open>
  The default camera with aspect 1 in exact arithmetic: element 5 of the matrix is the
  tangent of \<open>\<pi> / 2 - 0.5 * (60 * \<pi> / 180)\<close>, and elements 14 and 15 are those of
  the un-translated matrix plus 100.
\<close>

lemma setProjection_exact:
  "fst (setProjection 1 (s\<lparr>camera := default_camera\<rparr>)) ! 5 =
     tan (pi / 2 - 0.5 * (60 * pi / 180)) \<and>
   fst (setProjection 1 (s\<lparr>camera := default_camera\<rparr>)) ! 14 =
     perspective_matrix default_camera ! 14 + 100 \<and>
   fst (setProjection 1 (s\<lparr>camera := default_camera\<rparr>)) ! 15 =
     perspective_matrix default_camera ! 15 + 100"
  by (simp add: setProjection_def perspective_matrix_def default_camera_def Let_def)

section \<open>The projection in double arithmetic\<close>

subsection \<open>Rounding\<close>

text \<open>
  \<open>round_to_even\<close> returns the integer nearest to its argument, the even one of the two
  at a tie, and is never further than a half from it.
\<close>

lemma round_to_even_near:
  assumes "\<bar>y - of_int n\<bar> < 1 / 2"
  shows "round_to_even y = n"
proof (cases "of_int n \<le> y")
  case True
  with assms have "\<lfloor>y\<rfloor> = n"
    by (intro floor_unique) auto
  with assms True show ?thesis
    by (simp add: round_to_even_def Let_def)
next
  case False
  with assms have "\<lfloor>y\<rfloor> = n - 1"
    by (intro floor_unique) auto
  with assms False show ?thesis
    by (simp add: round_to_even_def Let_def)
qed

lemma round_to_even_tie:
  assumes "y = of_int n - 1 / 2" and "even n"
  shows "round_to_even y = n"
proof -
  from assms have "\<lfloor>y\<rfloor> = n - 1"
    by (intro floor_unique) auto
  with assms show ?thesis
    by (simp add: round_to_even_def Let_def)
qed

lemma round_to_even_error: "\<bar>of_int (round_to_even y) - y\<bar> \<le> 1 / 2"
proof -
  have "of_int \<lfloor>y\<rfloor> \<le> y" "y < of_int \<lfloor>y\<rfloor> + 1"
    by linarith+
  then show ?thesis
    by (auto simp add: round_to_even_def Let_def)
qed

lemma floor_log2:
  assumes "2 powi e \<le> \<bar>x\<bar>" and "\<bar>x\<bar> < 2 powi (e + 1)"
  shows "\<lfloor>log 2 \<bar>x\<bar>\<rfloor> = e"
proof -
  have pos: "0 < \<bar>x\<bar>"
    using assms(1) zero_less_power_int [of "2::real" e] by linarith
  have "(2::real) powr real_of_int e = 2 powi e"
    by (rule powr_real_of_int') simp_all
  moreover have "(2::real) powr real_of_int (e + 1) = 2 powi (e + 1)"
    by (rule powr_real_of_int') simp_all
  ultimately have "2 powr real_of_int e \<le> \<bar>x\<bar> \<and> \<bar>x\<bar> < 2 powr real_of_int (e + 1)"
    using assms by (simp only:)
  then show ?thesis
    using floor_log_eq_powr_iff [of "\<bar>x\<bar>" 2 e] pos by simp
qed

lemma round_double_in_binade:
  assumes "2 powi e \<le> \<bar>x\<bar>" and "\<bar>x\<bar> < 2 powi (e + 1)"
  shows "round_double x = of_int (round_to_even (x / 2 powi (e - 52))) * 2 powi (e - 52)"
proof -
  have "x \<noteq> 0"
  proof
    assume "x = 0"
    with assms(1) have "(2::real) powi e \<le> 0"
      by simp
    moreover have "0 < (2::real) powi e"
      by simp
    ultimately show False
      by linarith
  qed
  then show ?thesis
    by (simp add: round_double_def Let_def floor_log2 [OF assms])
qed

lemma binade_of_significand:
  fixes x :: real
  assumes "2 ^ 52 < \<bar>n\<bar>" and "\<bar>n\<bar> < 2 ^ 53"
    and "\<bar>x / 2 powi (e - 52) - of_int n\<bar> \<le> 1 / 2"
  shows "2 powi e \<le> \<bar>x\<bar> \<and> \<bar>x\<bar> < 2 powi (e + 1)"
proof -
  define u :: real where "u = 2 powi (e - 52)"
  have u: "0 < u"
    by (simp add: u_def)
  have e: "2 powi e = 2 ^ 52 * u" "2 powi (e + 1) = 2 ^ 53 * u"
    by (simp_all add: u_def power_int_diff power_int_add)
  have "2 ^ 52 + 1 \<le> \<bar>n\<bar>" "\<bar>n\<bar> \<le> 2 ^ 53 - 1"
    using assms(1,2) by linarith+
  then have "real_of_int (2 ^ 52 + 1) \<le> real_of_int \<bar>n\<bar>"
    and "real_of_int \<bar>n\<bar> \<le> real_of_int (2 ^ 53 - 1)"
    by (simp_all only: of_int_le_iff)
  then have n: "2 ^ 52 + 1 \<le> \<bar>real_of_int n\<bar>" "\<bar>real_of_int n\<bar> \<le> 2 ^ 53 - 1"
    by simp_all
  have "\<bar>x / u\<bar> = \<bar>x\<bar> / u"
    using u by simp
  moreover have "2 ^ 52 \<le> \<bar>x / u\<bar>" "\<bar>x / u\<bar> < 2 ^ 53"
    using assms(3) n unfolding u_def by linarith+
  ultimately have "2 ^ 52 * u \<le> \<bar>x\<bar>" "\<bar>x\<bar> < 2 ^ 53 * u"
    using u by (simp_all add: field_simps)
  then show ?thesis
    by (simp add: e)
qed

lemma round_double_near:
  assumes "2 ^ 52 < \<bar>n\<bar>" and "\<bar>n\<bar> < 2 ^ 53"
    and "\<bar>x / 2 powi (e - 52) - of_int n\<bar> < 1 / 2"
  shows "round_double x = of_int n * 2 powi (e - 52)"
proof -
  have "2 powi e \<le> \<bar>x\<bar> \<and> \<bar>x\<bar> < 2 powi (e + 1)"
    using binade_of_significand [of n x e] assms by simp
  then have "round_double x = of_int (round_to_even (x / 2 powi (e - 52))) * 2 powi (e - 52)"
    by (intro round_double_in_binade) simp_all
  then show ?thesis
    using round_to_even_near [OF assms(3)] by simp
qed

lemma round_double_tie:
  assumes "2 ^ 52 < \<bar>n\<bar>" and "\<bar>n\<bar> < 2 ^ 53"
    and "x / 2 powi (e - 52) = of_int n - 1 / 2" and "even n"
  shows "round_double x = of_int n * 2 powi (e - 52)"
proof -
  have "2 powi e \<le> \<bar>x\<bar> \<and> \<bar>x\<bar> < 2 powi (e + 1)"
    using binade_of_significand [of n x e] assms by simp
  then have "round_double x = of_int (round_to_even (x / 2 powi (e - 52))) * 2 powi (e - 52)"
    by (intro round_double_in_binade) simp_all
  then show ?thesis
    using round_to_even_tie [OF assms(3,4)] by simp
qed

lemma round_double_error:
  assumes "2 powi e \<le> \<bar>x\<bar>" and "\<bar>x\<bar> < 2 powi (e + 1)"
  shows "\<bar>round_double x - x\<bar> \<le> 2 powi (e - 53)"
proof -
  define u :: real where "u = 2 powi (e - 52)"
  have u: "0 < u"
    by (simp add: u_def)
  have half: "2 powi (e - 53) = u / 2"
    by (simp add: u_def power_int_diff)
  have "round_double x - x = (of_int (round_to_even (x / u)) - x / u) * u"
    using u by (simp add: round_double_in_binade [OF assms] u_def field_simps)
  then have "\<bar>round_double x - x\<bar> = \<bar>of_int (round_to_even (x / u)) - x / u\<bar> * u"
    using u by (simp add: abs_mult)
  also have "\<dots> \<le> 1 / 2 * u"
    using round_to_even_error [of "x / u"] u by (intro mult_right_mono) simp_all
  finally show ?thesis
    by (simp add: half)
qed

text \<open>
  The roundings that \<^verbatim>\<open>setProjection\<close> makes for the default camera, each as a rule: a
  number whose quotient by the unit in the last place is within a half of the significand
  rounds to that double.
\<close>

lemma rd_pi_180:
  "\<bar>x * 2 ^ 58 - 5030569068109113\<bar> < 1 / 2 \<Longrightarrow> round_double x = 5030569068109113 / 2 ^ 58"
  using round_double_near [of "5030569068109113" x "- 6"] by simp

lemma rd_fovRad:
  "\<bar>x * 2 ^ 52 - 4716158501352293\<bar> < 1 / 2 \<Longrightarrow> round_double x = 4716158501352293 / 2 ^ 52"
  using round_double_near [of "4716158501352293" x "0"] by simp

lemma rd_pi_half:
  "\<bar>x * 2 ^ 52 - 7074237752028440\<bar> < 1 / 2 \<Longrightarrow> round_double x = 884279719003555 / 2 ^ 49"
  using round_double_near [of "7074237752028440" x "0"] by simp

lemma rd_half_fovRad:
  "\<bar>x * 2 ^ 53 - 4716158501352293\<bar> < 1 / 2 \<Longrightarrow> round_double x = 4716158501352293 / 2 ^ 53"
  using round_double_near [of "4716158501352293" x "- 1"] by simp

lemma rd_near_minus_far:
  "\<bar>x * 2 ^ 39 - (- 5497008383066112)\<bar> < 1 / 2 \<Longrightarrow> round_double x = - 9999"
  using round_double_near [of "- 5497008383066112" x "13"] by simp

lemma rd_rangeInv:
  "\<bar>x * 2 ^ 66 - (- 7379435573041125)\<bar> < 1 / 2 \<Longrightarrow> round_double x = - 7379435573041125 / 2 ^ 66"
  using round_double_near [of "- 7379435573041125" x "- 14"] by simp

lemma rd_near_plus_far:
  "\<bar>x * 2 ^ 39 - 5498107894693888\<bar> < 1 / 2 \<Longrightarrow> round_double x = 10001"
  using round_double_near [of "5498107894693888" x "13"] by simp

lemma rd_m10:
  "\<bar>x * 2 ^ 52 - (- 4504500437376971)\<bar> < 1 / 2 \<Longrightarrow> round_double x = - 4504500437376971 / 2 ^ 52"
  using round_double_near [of "- 4504500437376971" x "0"] by simp

lemma rd_near_times_far:
  "\<bar>x * 2 ^ 39 - 5497558138880000\<bar> < 1 / 2 \<Longrightarrow> round_double x = 10000"
  using round_double_near [of "5497558138880000" x "13"] by simp

lemma rd_t:
  "\<bar>x * 2 ^ 52 - (- 4504050032373734)\<bar> < 1 / 2 \<Longrightarrow> round_double x = - 2252025016186867 / 2 ^ 51"
  using round_double_near [of "- 4504050032373734" x "0"] by simp

lemma rd_u14:
  "\<bar>x * 2 ^ 51 - (- 4504050032373734)\<bar> < 1 / 2 \<Longrightarrow> round_double x = - 2252025016186867 / 2 ^ 50"
  using round_double_near [of "- 4504050032373734" x "1"] by simp

lemma rd_m14:
  "\<bar>x * 2 ^ 46 - 6896122854254721\<bar> < 1 / 2 \<Longrightarrow> round_double x = 6896122854254721 / 2 ^ 46"
  using round_double_near [of "6896122854254721" x "6"] by simp

lemma rd_hundred:
  "\<bar>x * 2 ^ 46 - 7036874417766400\<bar> < 1 / 2 \<Longrightarrow> round_double x = 100"
  using round_double_near [of "7036874417766400" x "6"] by simp

lemma rd_arg:
  "x * 2 ^ 52 = 4716158501352294 - 1 / 2 \<Longrightarrow> round_double x = 2358079250676147 / 2 ^ 51"
  using round_double_tie [of "4716158501352294" x "0"] by simp

text \<open>The intermediate values of lines 246-269 for the default camera.\<close>

lemma tan_argument_double:
  "round_double (round_double (Math_PI * 0.5) -
     round_double (0.5 * round_double (60 * round_double (Math_PI / 180)))) =
   2358079250676147 / 2 ^ 51"
  by (simp add: Math_PI_def rd_pi_180 rd_fovRad rd_pi_half rd_half_fovRad rd_arg)

lemma rangeInv_double: "round_double (1.0 / round_double (1 - 10000)) = - 7379435573041125 / 2 ^ 66"
  by (simp add: rd_near_minus_far rd_rangeInv)

lemma element10_double:
  "round_double (round_double (1 + 10000) * (- 7379435573041125 / 2 ^ 66)) =
     - 4504500437376971 / 2 ^ 52"
  by (simp add: rd_near_plus_far rd_m10)

lemma element14_double:
  "round_double (round_double (round_double (1 * 10000) * (- 7379435573041125 / 2 ^ 66)) * 2) =
     - 2252025016186867 / 2 ^ 50"
  by (simp add: rd_near_times_far rd_t rd_u14)

lemma element14_translated_double:
  "round_double (- 2252025016186867 / 2 ^ 50 + 100) = 6896122854254721 / 2 ^ 46"
  by (simp add: rd_m14)

lemma element14_difference_double:
  "round_double (6896122854254721 / 2 ^ 46 - (- 2252025016186867 / 2 ^ 50)) = 100"
  by (simp add: rd_hundred)

lemma element15_translated_double: "round_double 100 = 100"
  by (simp add: rd_hundred)

subsection \<open>The tangent near \<open>\<pi> / 3\<close>\<close>

text \<open>
  The cosine from its Taylor polynomial of degree 10, which puts \<open>\<pi> / 3\<close>, where the
  cosine is a half, between 1.0471975 and 1.0471976; the argument that the code passes
  to \<^verbatim>\<open>Math.tan\<close> lies between the same two numbers, and the tangent there is within
  \<open>5 / 10 ^ 7\<close> of the tangent at \<open>\<pi> / 3\<close>.
\<close>

lemma cos_taylor:
  fixes x :: real
  shows "\<bar>cos x - (1 - x ^ 2 / 2 + x ^ 4 / 24 - x ^ 6 / 720 + x ^ 8 / 40320 - x ^ 10 / 3628800)\<bar>
           \<le> \<bar>x\<bar> ^ 12 / 479001600"
proof -
  obtain t where t: "cos x = (\<Sum>m<12. cos_coeff m * x ^ m) +
      cos (t + 1 / 2 * real 12 * pi) / fact 12 * x ^ 12"
    using Maclaurin_cos_expansion [of x 12] by blast
  have "{..<12::nat} = {0, 1, 2, 3, 4, 5, 6, 7, 8, 9, 10, 11}"
    by (auto, presburger)
  then have s: "(\<Sum>m<12. cos_coeff m * x ^ m) =
      1 - x ^ 2 / 2 + x ^ 4 / 24 - x ^ 6 / 720 + x ^ 8 / 40320 - x ^ 10 / 3628800"
    by (simp add: cos_coeff_def fact_numeral)
  have "\<bar>cos (t + 1 / 2 * real 12 * pi) / fact 12 * x ^ 12\<bar> =
        \<bar>cos (t + 1 / 2 * real 12 * pi)\<bar> * (\<bar>x\<bar> ^ 12 / 479001600)"
    by (simp add: abs_mult power_abs fact_numeral)
  also have "\<dots> \<le> 1 * (\<bar>x\<bar> ^ 12 / 479001600)"
    by (intro mult_right_mono abs_cos_le_one) simp
  finally show ?thesis
    using t s by simp
qed


lemma cos_below_pi_third: "1 / 2 < cos (10471975 / 10 ^ 7 :: real)"
proof -
  have "(1::real) / 2 <
      (1 - (10471975 / 10 ^ 7) ^ 2 / 2 + (10471975 / 10 ^ 7) ^ 4 / 24 - (10471975 / 10 ^ 7) ^ 6 / 720 +
        (10471975 / 10 ^ 7) ^ 8 / 40320 - (10471975 / 10 ^ 7) ^ 10 / 3628800) -
      \<bar>10471975 / 10 ^ 7\<bar> ^ 12 / 479001600"
    by (simp add: power_divide)
  then show ?thesis
    using cos_taylor [of "10471975 / 10 ^ 7"] by linarith
qed

lemma cos_above_pi_third:
  "cos (10471976 / 10 ^ 7 :: real) < 1 / 2 \<and> 49 / 100 \<le> cos (10471976 / 10 ^ 7 :: real)"
proof -
  have "(1 - (10471976 / 10 ^ 7) ^ 2 / 2 + (10471976 / 10 ^ 7) ^ 4 / 24 - (10471976 / 10 ^ 7) ^ 6 / 720 +
        (10471976 / 10 ^ 7) ^ 8 / 40320 - (10471976 / 10 ^ 7) ^ 10 / 3628800) +
      \<bar>10471976 / 10 ^ 7\<bar> ^ 12 / 479001600 < (1::real) / 2"
    by (simp add: power_divide)
  moreover have "(49::real) / 100 \<le>
      (1 - (10471976 / 10 ^ 7) ^ 2 / 2 + (10471976 / 10 ^ 7) ^ 4 / 24 - (10471976 / 10 ^ 7) ^ 6 / 720 +
        (10471976 / 10 ^ 7) ^ 8 / 40320 - (10471976 / 10 ^ 7) ^ 10 / 3628800) -
      \<bar>10471976 / 10 ^ 7\<bar> ^ 12 / 479001600"
    by (simp add: power_divide)
  ultimately show ?thesis
    using cos_taylor [of "10471976 / 10 ^ 7"] by linarith
qed

lemma pi_third_bracket: "10471975 / 10 ^ 7 < pi / 3 \<and> pi / 3 < 10471976 / 10 ^ 7"
proof -
  have two: "2 \<le> pi"
    by (rule pi_ge_two)
  have lower: "10471975 / 10 ^ 7 < pi / 3"
  proof (rule ccontr)
    assume "\<not> 10471975 / 10 ^ 7 < pi / 3"
    then have "pi / 3 \<le> 10471975 / 10 ^ 7"
      by simp
    moreover have "(10471975::real) / 10 ^ 7 \<le> pi"
      using two by simp
    moreover have "0 \<le> pi / 3"
      by simp
    ultimately have "cos (10471975 / 10 ^ 7) \<le> cos (pi / 3)"
      by (intro cos_monotone_0_pi_le)
    then show False
      using cos_below_pi_third by (simp add: cos_60)
  qed
  have upper: "pi / 3 < 10471976 / 10 ^ 7"
  proof (rule ccontr)
    assume "\<not> pi / 3 < 10471976 / 10 ^ 7"
    then have "10471976 / 10 ^ 7 \<le> pi / 3"
      by simp
    moreover have "pi / 3 \<le> pi"
      by simp
    moreover have "(0::real) \<le> 10471976 / 10 ^ 7"
      by simp
    ultimately have "cos (pi / 3) \<le> cos (10471976 / 10 ^ 7)"
      by (intro cos_monotone_0_pi_le)
    then show False
      using cos_above_pi_third by (simp add: cos_60)
  qed
  from lower upper show ?thesis ..
qed

lemma tan_difference:
  assumes "cos a \<noteq> 0" and "cos b \<noteq> 0"
  shows "tan a - tan b = sin (a - b) / (cos a * cos b)"
  using assms by (simp add: tan_def sin_diff field_simps)

lemma tan_argument_close: "\<bar>tan (2358079250676147 / 2 ^ 51) - tan (pi / 3)\<bar> \<le> 5 / 10 ^ 7"
proof -
  define a :: real where "a = 2358079250676147 / 2 ^ 51"
  have a: "10471975 / 10 ^ 7 \<le> a" "a \<le> 10471976 / 10 ^ 7"
    by (simp_all add: a_def)
  have "a - pi / 3 \<le> 1 / 10 ^ 7" and "- (a - pi / 3) \<le> 1 / 10 ^ 7"
    using a pi_third_bracket [THEN conjunct1] pi_third_bracket [THEN conjunct2]
    by simp_all
  then have close: "\<bar>a - pi / 3\<bar> \<le> 1 / 10 ^ 7"
    by (rule abs_leI)
  have "(10471976::real) / 10 ^ 7 \<le> pi"
    using pi_ge_two by simp
  moreover have "0 \<le> a"
    using a(1) by simp
  ultimately have "cos (10471976 / 10 ^ 7) \<le> cos a"
    using a(2) by (intro cos_monotone_0_pi_le)
  then have cos_a: "49 / 100 \<le> cos a"
    using cos_above_pi_third by linarith
  then have "tan a - tan (pi / 3) = sin (a - pi / 3) / (cos a * cos (pi / 3))"
    by (intro tan_difference) (simp_all add: cos_60)
  then have "\<bar>tan a - tan (pi / 3)\<bar> = \<bar>sin (a - pi / 3)\<bar> / (cos a * (1 / 2))"
    using cos_a by (simp add: cos_60 abs_mult)
  also have "\<dots> \<le> (1 / 10 ^ 7) / (49 / 100 * (1 / 2))"
  proof (intro frac_le)
    show "\<bar>sin (a - pi / 3)\<bar> \<le> 1 / 10 ^ 7"
      using abs_sin_x_le_abs_x [of "a - pi / 3"] close by linarith
    show "49 / 100 * (1 / 2) \<le> cos a * (1 / 2)"
      using cos_a by simp
  qed simp_all
  also have "\<dots> \<le> 5 / 10 ^ 7"
    by simp
  finally show ?thesis
    by (simp add: a_def)
qed

lemma tan_of_the_claim: "tan (pi / 2 - 0.5 * (60 * pi / 180)) = tan (pi / 3)"
proof -
  have "pi / 2 - 0.5 * (60 * pi / 180) = pi / 3"
    by simp
  then show ?thesis
    by simp
qed

lemma tan_pi_third_binade: "3 / 2 \<le> tan (pi / 3) \<and> tan (pi / 3) \<le> 9 / 5"
proof -
  have "3 / 2 \<le> sqrt 3"
    by (rule real_le_rsqrt) (simp add: power2_eq_square)
  moreover have "sqrt 3 \<le> 9 / 5"
    by (rule real_le_lsqrt) (simp_all add: power2_eq_square)
  ultimately show ?thesis
    by (simp add: tan_60)
qed

subsection \<open>The matrix for the default camera\<close>

lemma perspective_matrix_double_default:
  "perspective_matrix_double Math_tan default_camera =
     [round_double (Math_tan (2358079250676147 / 2 ^ 51) / 1), 0, 0, 0,
      0, Math_tan (2358079250676147 / 2 ^ 51), 0, 0,
      0, 0, - 4504500437376971 / 2 ^ 52, - 1,
      0, 0, - 2252025016186867 / 2 ^ 50, 0]"
  by (simp only: perspective_matrix_double_def Let_def default_camera_def
        CameraConfig.select_convs tan_argument_double rangeInv_double element10_double
        element14_double)

lemma setProjection_double_default:
  "fst (setProjection_double Math_tan 1 (s\<lparr>camera := default_camera\<rparr>)) =
     (perspective_matrix_double Math_tan default_camera)
       [14 := round_double (perspective_matrix_double Math_tan default_camera ! 14 + 100),
        15 := round_double (perspective_matrix_double Math_tan default_camera ! 15 + 100)]"
proof -
  have "default_camera\<lparr>cam_aspect := 1\<rparr> = default_camera"
    by (simp add: default_camera_def)
  moreover have "length (perspective_matrix_double Math_tan default_camera) = 16"
    by (simp add: perspective_matrix_double_default)
  moreover have "cam_perspective default_camera" and "cam_z default_camera = 100"
    by (simp_all add: default_camera_def)
  ultimately show ?thesis
    by (simp add: setProjection_double_def Let_def)
qed

text \<open>The host \<open>tan_rounded\<close> is as accurate as a \<^verbatim>\<open>Math.tan\<close> can be.\<close>

lemma tan_rounded_close:
  "\<bar>tan_rounded (2358079250676147 / 2 ^ 51) - tan (2358079250676147 / 2 ^ 51)\<bar> \<le> 5 / 10 ^ 7"
proof -
  define x :: real where "x = tan (2358079250676147 / 2 ^ 51)"
  have "\<bar>x - tan (pi / 3)\<bar> \<le> 5 / 10 ^ 7"
    unfolding x_def by (rule tan_argument_close)
  then have "\<bar>x - tan (pi / 3)\<bar> \<le> 1 / 2000000"
    by simp
  then have "1 \<le> x" and "x < 2"
    using tan_pi_third_binade [THEN conjunct1] tan_pi_third_binade [THEN conjunct2]
    by linarith+
  then have "2 powi 0 \<le> \<bar>x\<bar>" and "\<bar>x\<bar> < 2 powi (0 + 1)"
    by simp_all
  then have "\<bar>round_double x - x\<bar> \<le> 2 powi (0 - 53)"
    by (rule round_double_error)
  also have "\<dots> \<le> 5 / 10 ^ 7"
    by simp
  finally show ?thesis
    by (simp add: tan_rounded_def x_def)
qed

text \<open>
  C8, as amended. With the camera of the claim (perspective, fov 60, near 1, far 10000,
  aspect 1, z 100) and the arithmetic of the engine: element 5 of the matrix is
  \<^verbatim>\<open>Math.tan\<close> at the double \<open>2358079250676147 / 2 ^ 51\<close>, and it is within
  \<open>1 / 10 ^ 6\<close> of \<open>tan (\<pi> / 2 - 0.5 * (60 * \<pi> / 180))\<close> whenever the host's \<^verbatim>\<open>Math.tan\<close>
  is within \<open>5 / 10 ^ 7\<close> of the tangent at that double; element 14 is the double nearest
  to the un-translated element plus 100, it exceeds the un-translated element by
  \<open>100 + 6 / 2 ^ 51\<close>, and the subtraction of the two in double arithmetic gives 100;
  element 15 exceeds the un-translated element by exactly 100. (As stated, with the
  difference at index 14 exactly 100, the claim fails: see
  \<open>setProjection_double_counterexample\<close>.)
\<close>

theorem setProjection_double_elements:
  "fst (setProjection_double Math_tan 1 (s\<lparr>camera := default_camera\<rparr>)) ! 5 =
     Math_tan (2358079250676147 / 2 ^ 51) \<and>
   (\<bar>Math_tan (2358079250676147 / 2 ^ 51) - tan (2358079250676147 / 2 ^ 51)\<bar> \<le> 5 / 10 ^ 7 \<longrightarrow>
      \<bar>fst (setProjection_double Math_tan 1 (s\<lparr>camera := default_camera\<rparr>)) ! 5 -
         tan (pi / 2 - 0.5 * (60 * pi / 180))\<bar> \<le> 1 / 10 ^ 6) \<and>
   fst (setProjection_double Math_tan 1 (s\<lparr>camera := default_camera\<rparr>)) ! 14 =
     round_double (perspective_matrix_double Math_tan default_camera ! 14 + 100) \<and>
   fst (setProjection_double Math_tan 1 (s\<lparr>camera := default_camera\<rparr>)) ! 14 -
     perspective_matrix_double Math_tan default_camera ! 14 = 100 + 6 / 2 ^ 51 \<and>
   round_double
     (fst (setProjection_double Math_tan 1 (s\<lparr>camera := default_camera\<rparr>)) ! 14 -
      perspective_matrix_double Math_tan default_camera ! 14) = 100 \<and>
   fst (setProjection_double Math_tan 1 (s\<lparr>camera := default_camera\<rparr>)) ! 15 =
     perspective_matrix_double Math_tan default_camera ! 15 + 100"
proof -
  define U where "U = perspective_matrix_double Math_tan default_camera"
  define P where "P = fst (setProjection_double Math_tan 1 (s\<lparr>camera := default_camera\<rparr>))"
  define a :: real where "a = 2358079250676147 / 2 ^ 51"
  have P: "P = U[14 := round_double (U ! 14 + 100), 15 := round_double (U ! 15 + 100)]"
    unfolding P_def U_def by (rule setProjection_double_default)
  have len: "length U = 16"
    by (simp add: U_def perspective_matrix_double_default)
  have u5: "U ! 5 = Math_tan a"
    by (simp add: U_def a_def perspective_matrix_double_default)
  have u14: "U ! 14 = - 2252025016186867 / 2 ^ 50"
    by (simp add: U_def perspective_matrix_double_default)
  have u15: "U ! 15 = 0"
    by (simp add: U_def perspective_matrix_double_default)
  have p5: "P ! 5 = Math_tan a"
    by (simp add: P len u5)
  have p14: "P ! 14 = round_double (U ! 14 + 100)"
    by (simp add: P len)
  have p14_value: "P ! 14 = 6896122854254721 / 2 ^ 46"
    unfolding p14 u14 by (rule element14_translated_double)
  have p15: "P ! 15 = U ! 15 + 100"
    by (simp add: P len u15 element15_translated_double)
  have difference: "P ! 14 - U ! 14 = 100 + 6 / 2 ^ 51"
    by (simp add: p14_value u14)
  have rounded_difference: "round_double (P ! 14 - U ! 14) = 100"
    unfolding p14_value u14 by (rule element14_difference_double)
  have tangent: "\<bar>P ! 5 - tan (pi / 2 - 0.5 * (60 * pi / 180))\<bar> \<le> 1 / 10 ^ 6"
    if "\<bar>Math_tan a - tan a\<bar> \<le> 5 / 10 ^ 7"
  proof -
    have "\<bar>tan a - tan (pi / 3)\<bar> \<le> 5 / 10 ^ 7"
      unfolding a_def by (rule tan_argument_close)
    then have "\<bar>tan a - tan (pi / 3)\<bar> \<le> 1 / 2000000"
      by simp
    moreover from that have "\<bar>Math_tan a - tan a\<bar> \<le> 1 / 2000000"
      by simp
    ultimately have "\<bar>Math_tan a - tan (pi / 3)\<bar> \<le> 1 / 1000000"
      by linarith
    then show ?thesis
      unfolding p5 tan_of_the_claim by simp
  qed
  from p5 tangent p14 difference rounded_difference p15 show ?thesis
    unfolding P_def U_def a_def by blast
qed

text \<open>
  The theorem at the example surface, for the host whose \<^verbatim>\<open>Math.tan\<close> returns the double
  nearest to the tangent.
\<close>

theorem setProjection_double_elements_witness:
  "\<bar>tan_rounded (2358079250676147 / 2 ^ 51) - tan (2358079250676147 / 2 ^ 51)\<bar> \<le> 5 / 10 ^ 7 \<and>
   \<bar>fst (setProjection_double tan_rounded 1 (surface0\<lparr>camera := default_camera\<rparr>)) ! 5 -
      tan (pi / 2 - 0.5 * (60 * pi / 180))\<bar> \<le> 1 / 10 ^ 6 \<and>
   round_double
     (fst (setProjection_double tan_rounded 1 (surface0\<lparr>camera := default_camera\<rparr>)) ! 14 -
      perspective_matrix_double tan_rounded default_camera ! 14) = 100 \<and>
   fst (setProjection_double tan_rounded 1 (surface0\<lparr>camera := default_camera\<rparr>)) ! 15 =
     perspective_matrix_double tan_rounded default_camera ! 15 + 100"
  using setProjection_double_elements [of tan_rounded surface0] tan_rounded_close
  by blast

text \<open>
  C8 as stated fails at index 14: the un-translated element is the double
  \<open>- 2252025016186867 / 2 ^ 50\<close>, the element of the derived matrix is the double
  \<open>6896122854254721 / 2 ^ 46\<close>, and the two differ by \<open>100 + 6 / 2 ^ 51\<close>, not by 100.
\<close>

theorem setProjection_double_counterexample:
  "perspective_matrix_double tan_rounded default_camera ! 14 = - 2252025016186867 / 2 ^ 50 \<and>
   fst (setProjection_double tan_rounded 1 (surface0\<lparr>camera := default_camera\<rparr>)) ! 14 =
     6896122854254721 / 2 ^ 46 \<and>
   fst (setProjection_double tan_rounded 1 (surface0\<lparr>camera := default_camera\<rparr>)) ! 14 -
     perspective_matrix_double tan_rounded default_camera ! 14 \<noteq> 100"
proof -
  have u14: "perspective_matrix_double tan_rounded default_camera ! 14 =
      - 2252025016186867 / 2 ^ 50"
    by (simp add: perspective_matrix_double_default)
  have "fst (setProjection_double tan_rounded 1 (surface0\<lparr>camera := default_camera\<rparr>)) ! 14 =
      round_double (perspective_matrix_double tan_rounded default_camera ! 14 + 100)"
    by (simp add: setProjection_double_default perspective_matrix_double_default)
  then have p14: "fst (setProjection_double tan_rounded 1 (surface0\<lparr>camera := default_camera\<rparr>)) ! 14 =
      6896122854254721 / 2 ^ 46"
    unfolding u14 by (simp only: element14_translated_double)
  show ?thesis
    unfolding p14 u14 by simp
qed

section \<open>Shader compilation and linking\<close>

text \<open>
  C4 fails when the vertex shader compiles and the fragment shader does not: the
  constructor throws the compile error, and of the two shaders created (handles 0 and 1)
  only the fragment shader has been deleted. \<^verbatim>\<open>createShader\<close> deletes the shader it
  failed to compile (line 293); \<^verbatim>\<open>createProgram\<close> does not delete the vertex shader it
  already holds.
\<close>

theorem fragment_failure_leaks_vertex_shader:
  "fst (constructor env_fragment_fails default_options) =
     Some (Error ''Shader compilation failed: ERROR: 0:1'') \<and>
   events (snd (constructor env_fragment_fails default_options)) =
     [Host AppendChild,
      GL (CreateShader VERTEX_SHADER (Some 0)), GL (ShaderSource 0 default_vertex),
      GL (CompileShader 0), GL (GetShaderParameter 0),
      GL (CreateShader FRAGMENT_SHADER (Some 1)), GL (ShaderSource 1 default_fragment),
      GL (CompileShader 1), GL (GetShaderParameter 1),
      GL (GetShaderInfoLog 1), GL (DeleteShader 1)]"
  by (simp add: env_fragment_fails_def env0_def model_defs default_vertex_def
        default_fragment_def cong: weak_congs)

text \<open>
  When the program fails to link, the program is deleted (line 319) and neither shader
  is.
\<close>

lemma link_failure_leaks_both_shaders:
  "fst (constructor env_link_fails default_options) =
     Some (Error ''Program linking failed: link error'') \<and>
   events (snd (constructor env_link_fails default_options)) =
     [Host AppendChild,
      GL (CreateShader VERTEX_SHADER (Some 0)), GL (ShaderSource 0 default_vertex),
      GL (CompileShader 0), GL (GetShaderParameter 0),
      GL (CreateShader FRAGMENT_SHADER (Some 1)), GL (ShaderSource 1 default_fragment),
      GL (CompileShader 1), GL (GetShaderParameter 1),
      GL (CreateProgram (Some 2)), GL (AttachShader 2 0), GL (AttachShader 2 1),
      GL (LinkProgram 2), GL (GetProgramParameter 2),
      GL (GetProgramInfoLog 2), GL (DeleteProgram 2)]"
  by (simp add: env_link_fails_def env0_def model_defs cong: weak_congs)

section \<open>Teardown\<close>

text \<open>The calls of the first \<^verbatim>\<open>destroy()\<close> on the example surface.\<close>

lemma destroy_events:
  "events (destroy surface0) =
     events surface0 @
     [Host (CancelAnimationFrame 1), Host (RemoveEventListener ''resize''),
      GL (DeleteBuffer 3), GL (DeleteBuffer 4), GL (DeleteTexture 7), GL (DeleteProgram 2),
      Host RemoveChild]"
  by (simp add: surface0_def model_defs cong: weak_congs)

text \<open>
  C3 fails for the handles of the context: a second \<^verbatim>\<open>destroy()\<close> on the example
  surface throws nothing, cancels no frame and removes no listener or node, and calls
  \<^verbatim>\<open>gl.deleteBuffer\<close> on both buffers, \<^verbatim>\<open>gl.deleteTexture\<close> and \<^verbatim>\<open>gl.deleteProgram\<close>
  again. \<^verbatim>\<open>destroy\<close> resets the frame id and the two handlers to \<^verbatim>\<open>null\<close> after it
  released them (lines 547, 553, 557); it does not reset \<^verbatim>\<open>buffer.buffer\<close>,
  \<^verbatim>\<open>this.texture\<close> or \<^verbatim>\<open>this.program\<close>, which its guards at lines 565, 572 and 577
  test.
\<close>

theorem destroy_twice_releases_again:
  "events (destroy (destroy surface0)) =
     events (destroy surface0) @
     [GL (DeleteBuffer 3), GL (DeleteBuffer 4), GL (DeleteTexture 7), GL (DeleteProgram 2)]"
  by (simp add: surface0_def model_defs cong: weak_congs)

section \<open>Teardown and the frame loop\<close>

lemma delete_buffers_frame:
  "raf_pending (delete_buffers bs s) = raf_pending s \<and>
   raf_next (delete_buffers bs s) = raf_next s \<and>
   animationFrameId (delete_buffers bs s) = animationFrameId s"
  by (induction bs arbitrary: s) (simp_all add: deleteBuffer_def gl_def Let_def split: option.split)

text \<open>What \<^verbatim>\<open>destroy\<close> does to the frame scheduler.\<close>

lemma destroy_scheduler:
  "raf_next (destroy s) = raf_next s \<and>
   animationFrameId (destroy s) = None \<and>
   raf_pending (destroy s) =
     (case animationFrameId s of None \<Rightarrow> raf_pending s | Some h \<Rightarrow> removeAll h (raf_pending s))"
proof -
  define s1 where "s1 =
    (case animationFrameId s of
       None \<Rightarrow> s
     | Some h \<Rightarrow> (cancelAnimationFrame h s)\<lparr>animationFrameId := None\<rparr>)"
  define s2 where "s2 =
    (if resizeHandler s1
     then (host (RemoveEventListener ''resize'') s1)\<lparr>resizeHandler := False\<rparr> else s1)"
  define s3 where "s3 =
    (if mousemoveHandler s2
     then (host (RemoveEventListener ''mousemove'') s2)\<lparr>mousemoveHandler := False\<rparr> else s2)"
  define s4 where "s4 = delete_buffers (map snd (data_buffers s3)) s3"
  define s5 where "s5 = (case texture s4 of None \<Rightarrow> s4 | Some tex \<Rightarrow> gl (DeleteTexture tex) s4)"
  define s6 where "s6 = (case program s5 of None \<Rightarrow> s5 | Some prog \<Rightarrow> gl (DeleteProgram prog) s5)"
  have d: "destroy s =
      (if canvas_parentNode s6 then (host RemoveChild s6)\<lparr>canvas_parentNode := False\<rparr> else s6)"
    unfolding destroy_def Let_def s1_def s2_def s3_def s4_def s5_def s6_def ..
  have 1: "raf_next s1 = raf_next s \<and> animationFrameId s1 = None \<and>
      raf_pending s1 =
        (case animationFrameId s of None \<Rightarrow> raf_pending s | Some h \<Rightarrow> removeAll h (raf_pending s))"
    by (simp add: s1_def cancelAnimationFrame_def host_def split: option.split)
  have 2: "raf_next s2 = raf_next s1 \<and> animationFrameId s2 = animationFrameId s1 \<and>
      raf_pending s2 = raf_pending s1"
    by (simp add: s2_def host_def)
  have 3: "raf_next s3 = raf_next s2 \<and> animationFrameId s3 = animationFrameId s2 \<and>
      raf_pending s3 = raf_pending s2"
    by (simp add: s3_def host_def)
  have 4: "raf_next s4 = raf_next s3 \<and> animationFrameId s4 = animationFrameId s3 \<and>
      raf_pending s4 = raf_pending s3"
    by (simp add: s4_def delete_buffers_frame)
  have 5: "raf_next s5 = raf_next s4 \<and> animationFrameId s5 = animationFrameId s4 \<and>
      raf_pending s5 = raf_pending s4"
    by (simp add: s5_def gl_def split: option.split)
  have 6: "raf_next s6 = raf_next s5 \<and> animationFrameId s6 = animationFrameId s5 \<and>
      raf_pending s6 = raf_pending s5"
    by (simp add: s6_def gl_def split: option.split)
  have 7: "raf_next (destroy s) = raf_next s6 \<and>
      animationFrameId (destroy s) = animationFrameId s6 \<and>
      raf_pending (destroy s) = raf_pending s6"
    by (simp add: d host_def)
  show ?thesis
    using 1 2 3 4 5 6 7 by simp
qed

text \<open>
  Called between two frames, while the one request the loop keeps is pending,
  \<^verbatim>\<open>destroy\<close> cancels it, and the next display refresh runs nothing.
\<close>

lemma destroy_between_frames:
  assumes "animationFrameId s = Some h" and "set (raf_pending s) \<subseteq> {h}"
  shows "raf_pending (destroy s) = [] \<and> animation_frame env onUpdate (destroy s) = destroy s"
proof -
  have "removeAll h xs = []" if "set xs \<subseteq> {h}" for xs
    using that by (induction xs) auto
  then have "removeAll h (raf_pending s) = []"
    using assms(2) by blast
  then have "raf_pending (destroy s) = []"
    using assms(1) by (simp add: destroy_scheduler)
  then show ?thesis
    by (simp add: animation_frame_def)
qed

text \<open>
  A frame whose callback calls \<^verbatim>\<open>destroy\<close> ends with a request pending, whatever the
  state it starts from: line 536 runs after the callback has returned.
\<close>

lemma frame_reschedules_after_destroy:
  "animationFrameId (update_frame env (\<lambda>delta. destroy) s) = Some (raf_next s + 1) \<and>
   raf_next s + 1 \<in> set (raf_pending (update_frame env (\<lambda>delta. destroy) s))"
proof -
  have "raf_next (uniforms_set name v x) = raf_next x" for name v x
    by (simp add: uniforms_set_def setUniform_def gl_def Let_def split: option.split utype.split)
  moreover have "raf_next (draw x) = raf_next x" for x
    by (simp add: draw_def gl_def Let_def)
  ultimately show ?thesis
    by (simp add: update_frame_def Let_def requestAnimationFrame_def host_def now_def
          destroy_scheduler)
qed

text \<open>
  C7 fails when \<^verbatim>\<open>destroy\<close> is called from the \<^verbatim>\<open>onUpdate\<close> callback. The surface is
  constructed on the example host with the callback \<open>destroy_when_late\<close>; the first frame,
  run by the constructor at 32 ms, leaves it as the example surface. At the next display
  refresh (48 ms) the callback calls \<^verbatim>\<open>destroy\<close>, which releases everything; the frame
  then requests frame 2 (line 536). At the refresh after that the frame callback runs
  again, on the torn-down surface: it cancels, deletes and requests once more.
\<close>

theorem frame_runs_after_destroy:
  "(let s1 = snd (constructor env0 (default_options\<lparr>opt_onUpdate := destroy_when_late\<rparr>));
        s2 = animation_frame env0 destroy_when_late s1;
        s3 = animation_frame env0 destroy_when_late s2
    in s1 = surface0 \<and>
       events s2 =
         events s1 @
         [Host (CancelAnimationFrame 1), Host (RemoveEventListener ''resize''),
          GL (DeleteBuffer 3), GL (DeleteBuffer 4), GL (DeleteTexture 7), GL (DeleteProgram 2),
          Host RemoveChild, Host (RequestAnimationFrame 2)] \<and>
       raf_pending s2 = [2] \<and>
       events s3 =
         events s2 @
         [Host (CancelAnimationFrame 2),
          GL (DeleteBuffer 3), GL (DeleteBuffer 4), GL (DeleteTexture 7), GL (DeleteProgram 2),
          Host (RequestAnimationFrame 3)])"
  by (simp add: env0_def surface0_def destroy_when_late_def model_defs cong: weak_congs)

end
